theory Spec2Isabelle
  imports Complex_Main
begin

section \<open>JavaScript numbers\<close>

text \<open>
  The intersection routines of \<^verbatim>\<open>Ray.js\<close> compute with JavaScript numbers and rely on
  their special values: \<^verbatim>\<open>1 / direction.x\<close> is a signed infinity when the component
  is a (signed) zero, \<^verbatim>\<open>0 * Infinity\<close> is NaN, every ordered comparison with NaN is
  false and \<^verbatim>\<open>x !== x\<close> holds for NaN only. The model keeps these values and the sign
  of zero. Finite values are real numbers and finite arithmetic is exact: rounding and
  overflow of the 64-bit format are not modelled.
\<close>

datatype jsnum = Num real | NegZero | PInf | NInf | NaN

text \<open>\<open>Num 0\<close> is the positive zero, \<open>NegZero\<close> the negative one.\<close>

fun fin :: "jsnum \<Rightarrow> bool" where
  "fin (Num r) = True"
| "fin NegZero = True"
| "fin PInf = False"
| "fin NInf = False"
| "fin NaN = False"

fun val :: "jsnum \<Rightarrow> real" where
  "val (Num r) = r"
| "val NegZero = 0"
| "val PInf = 0"
| "val NInf = 0"
| "val NaN = 0"

fun isnan :: "jsnum \<Rightarrow> bool" where
  "isnan NaN = True"
| "isnan (Num r) = False"
| "isnan NegZero = False"
| "isnan PInf = False"
| "isnan NInf = False"

fun isinf :: "jsnum \<Rightarrow> bool" where
  "isinf PInf = True"
| "isinf NInf = True"
| "isinf (Num r) = False"
| "isinf NegZero = False"
| "isinf NaN = False"

fun jzero :: "jsnum \<Rightarrow> bool" where
  "jzero (Num r) = (r = 0)"
| "jzero NegZero = True"
| "jzero PInf = False"
| "jzero NInf = False"
| "jzero NaN = False"

text \<open>The sign bit: set for negative numbers, the negative zero and \<open>-Infinity\<close>.\<close>

fun signbit :: "jsnum \<Rightarrow> bool" where
  "signbit (Num r) = (r < 0)"
| "signbit NegZero = True"
| "signbit PInf = False"
| "signbit NInf = True"
| "signbit NaN = False"

definition zero_of :: "bool \<Rightarrow> jsnum" where
  "zero_of s = (if s then NegZero else Num 0)"

definition inf_of :: "bool \<Rightarrow> jsnum" where
  "inf_of s = (if s then NInf else PInf)"

text \<open>A finite result: a zero result carries the sign the operation gives it.\<close>

definition finite_of :: "bool \<Rightarrow> real \<Rightarrow> jsnum" where
  "finite_of s r = (if r = 0 then zero_of s else Num r)"

text \<open>Unary minus flips the sign, also of a zero.\<close>

fun jneg :: "jsnum \<Rightarrow> jsnum" where
  "jneg (Num r) = (if r = 0 then NegZero else Num (- r))"
| "jneg NegZero = Num 0"
| "jneg PInf = NInf"
| "jneg NInf = PInf"
| "jneg NaN = NaN"

text \<open>
  Addition: \<open>Infinity + -Infinity\<close> is NaN; a sum of two zeros is negative only when
  both are; an exact sum of two opposite non-zero numbers is the positive zero.
\<close>

definition jadd :: "jsnum \<Rightarrow> jsnum \<Rightarrow> jsnum" where
  "jadd a b =
     (if isnan a \<or> isnan b then NaN
      else if isinf a \<and> isinf b then (if signbit a = signbit b then a else NaN)
      else if isinf a then a
      else if isinf b then b
      else if jzero a \<and> jzero b then zero_of (signbit a \<and> signbit b)
      else finite_of False (val a + val b))"

definition jsub :: "jsnum \<Rightarrow> jsnum \<Rightarrow> jsnum" where
  "jsub a b = jadd a (jneg b)"

text \<open>Multiplication: \<open>0 * Infinity\<close> is NaN; the sign is the exclusive or of the signs.\<close>

definition jmul :: "jsnum \<Rightarrow> jsnum \<Rightarrow> jsnum" where
  "jmul a b =
     (if isnan a \<or> isnan b then NaN
      else if isinf a \<or> isinf b then
        (if jzero a \<or> jzero b then NaN else inf_of (signbit a \<noteq> signbit b))
      else finite_of (signbit a \<noteq> signbit b) (val a * val b))"

text \<open>
  Division: \<open>0 / 0\<close> and \<open>Infinity / Infinity\<close> are NaN, a non-zero number divided by
  a zero is an infinity whose sign is the exclusive or of the signs.
\<close>

definition jdiv :: "jsnum \<Rightarrow> jsnum \<Rightarrow> jsnum" where
  "jdiv a b =
     (if isnan a \<or> isnan b then NaN
      else if isinf a then (if isinf b then NaN else inf_of (signbit a \<noteq> signbit b))
      else if isinf b then zero_of (signbit a \<noteq> signbit b)
      else if jzero b then (if jzero a then NaN else inf_of (signbit a \<noteq> signbit b))
      else finite_of (signbit a \<noteq> signbit b) (val a / val b))"

text \<open>\<^verbatim>\<open>Math.sqrt\<close>: NaN below zero, and the negative zero is kept.\<close>

fun jsqrt :: "jsnum \<Rightarrow> jsnum" where
  "jsqrt (Num r) = (if r < 0 then NaN else Num (sqrt r))"
| "jsqrt NegZero = NegZero"
| "jsqrt PInf = PInf"
| "jsqrt NInf = NaN"
| "jsqrt NaN = NaN"

text \<open>Comparisons: false as soon as one side is NaN; the two zeros are equal.\<close>

fun jlt :: "jsnum \<Rightarrow> jsnum \<Rightarrow> bool" where
  "jlt NaN b = False"
| "jlt a NaN = False"
| "jlt PInf b = False"
| "jlt a PInf = True"
| "jlt a NInf = False"
| "jlt NInf b = True"
| "jlt a b = (val a < val b)"

definition jgt :: "jsnum \<Rightarrow> jsnum \<Rightarrow> bool" where
  "jgt a b = jlt b a"

definition jge :: "jsnum \<Rightarrow> jsnum \<Rightarrow> bool" where
  "jge a b = (\<not> isnan a \<and> \<not> isnan b \<and> \<not> jlt a b)"

text \<open>Strict equality \<^verbatim>\<open>===\<close> on numbers, and its negation \<^verbatim>\<open>!==\<close>.\<close>

definition strict_eq :: "jsnum \<Rightarrow> jsnum \<Rightarrow> bool" where
  "strict_eq a b = (\<not> isnan a \<and> \<not> isnan b \<and> \<not> jlt a b \<and> \<not> jlt b a)"

definition strict_ne :: "jsnum \<Rightarrow> jsnum \<Rightarrow> bool" where
  "strict_ne a b = (\<not> strict_eq a b)"

section \<open>Vector3\<close>

record Vector3 =
  vx :: jsnum
  vy :: jsnum
  vz :: jsnum

text \<open>
  Modelled from the spec: \<^verbatim>\<open>Vector3.js\<close> is imported by \<^verbatim>\<open>Ray.js\<close> but is not part of
  the sources at hand. The spec takes the vector primitives as the usual 3D vector
  arithmetic; the methods below are the ones \<^verbatim>\<open>Ray.js\<close> calls, each returning the new
  contents of the vector it is called on (\<open>this\<close>, the first argument).
\<close>

definition set_v :: "Vector3 \<Rightarrow> jsnum \<Rightarrow> jsnum \<Rightarrow> jsnum \<Rightarrow> Vector3" where
  "set_v this x y z = this\<lparr>vx := x, vy := y, vz := z\<rparr>"

definition copy :: "Vector3 \<Rightarrow> Vector3 \<Rightarrow> Vector3" where
  "copy this v = this\<lparr>vx := vx v, vy := vy v, vz := vz v\<rparr>"

definition add :: "Vector3 \<Rightarrow> Vector3 \<Rightarrow> Vector3" where
  "add this v = this\<lparr>vx := jadd (vx this) (vx v), vy := jadd (vy this) (vy v),
                     vz := jadd (vz this) (vz v)\<rparr>"

definition multiplyScalar :: "Vector3 \<Rightarrow> jsnum \<Rightarrow> Vector3" where
  "multiplyScalar this s = this\<lparr>vx := jmul (vx this) s, vy := jmul (vy this) s,
                                vz := jmul (vz this) s\<rparr>"

definition subVectors :: "Vector3 \<Rightarrow> Vector3 \<Rightarrow> Vector3 \<Rightarrow> Vector3" where
  "subVectors this p q = this\<lparr>vx := jsub (vx p) (vx q), vy := jsub (vy p) (vy q),
                               vz := jsub (vz p) (vz q)\<rparr>"

definition dot :: "Vector3 \<Rightarrow> Vector3 \<Rightarrow> jsnum" where
  "dot this v = jadd (jadd (jmul (vx this) (vx v)) (jmul (vy this) (vy v)))
                     (jmul (vz this) (vz v))"

definition crossVectors :: "Vector3 \<Rightarrow> Vector3 \<Rightarrow> Vector3 \<Rightarrow> Vector3" where
  "crossVectors this p q =
     this\<lparr>vx := jsub (jmul (vy p) (vz q)) (jmul (vz p) (vy q)),
          vy := jsub (jmul (vz p) (vx q)) (jmul (vx p) (vz q)),
          vz := jsub (jmul (vx p) (vy q)) (jmul (vy p) (vx q))\<rparr>"

definition cross :: "Vector3 \<Rightarrow> Vector3 \<Rightarrow> Vector3" where
  "cross this v = crossVectors this this v"

section \<open>Ray\<close>

record Ray =
  origin :: Vector3
  direction :: Vector3

text \<open>
  \<^verbatim>\<open>at( t, result )\<close> overwrites the caller's vector \<open>result\<close> and returns it; the model
  returns its new contents. The vector \<open>result\<close> is taken to be an object of its own, not
  one of the ray's two vectors: the specification has each vector owned by one object
  and never shared by reference. (\<open>at\<close> is a constant of the library, hence \<open>at_ray\<close>.)
\<close>

definition at_ray :: "Ray \<Rightarrow> jsnum \<Rightarrow> Vector3 \<Rightarrow> Vector3" where
  "at_ray this t result = add (multiplyScalar (copy result (direction this)) t) (origin this)"

record BoundingSphere =
  center :: Vector3
  radius :: jsnum

text \<open>The fields \<^verbatim>\<open>min\<close> and \<^verbatim>\<open>max\<close> of an AABB (names of the library otherwise).\<close>

record AABB =
  aabb_min :: Vector3
  aabb_max :: Vector3

text \<open>The fields \<^verbatim>\<open>a\<close>, \<^verbatim>\<open>b\<close> and \<^verbatim>\<open>c\<close> of a triangle.\<close>

record Triangle =
  tri_a :: Vector3
  tri_b :: Vector3
  tri_c :: Vector3

text \<open>
  The module-level working storage: \<^verbatim>\<open>v1\<close>, \<^verbatim>\<open>edge1\<close>, \<^verbatim>\<open>edge2\<close> and \<^verbatim>\<open>normal\<close> of
  \<^verbatim>\<open>Ray.js\<close>, and \<^verbatim>\<open>aabb\<close>, \<^verbatim>\<open>triangle\<close> and \<^verbatim>\<open>intersectionPointAABB\<close> of the
  obstacle module (the first two as \<open>aabb_tmp\<close> and \<open>triangle_tmp\<close>). It lives across
  calls, so every routine that writes to it takes it and returns it. No caller can reach
  these vectors, so none of them is the vector \<open>result\<close> of a call.
\<close>

record scratch =
  v1 :: Vector3
  edge1 :: Vector3
  edge2 :: Vector3
  normal :: Vector3
  aabb_tmp :: AABB
  triangle_tmp :: Triangle
  intersectionPointAABB :: Vector3

text \<open>
  What an intersection routine returns: \<^verbatim>\<open>null\<close>, or the caller's vector \<open>result\<close>.
  Each routine is modelled with the contents of \<open>result\<close> before the call as an
  argument, and yields the returned reference, the contents of \<open>result\<close> after the
  call and the working storage after the call.
\<close>

datatype ret = Null | ResultRef

definition intersectBoundingSphere ::
  "Ray \<Rightarrow> BoundingSphere \<Rightarrow> Vector3 \<Rightarrow> scratch \<Rightarrow> ret \<times> Vector3 \<times> scratch" where
  "intersectBoundingSphere this sphere result s =
     (let s1 = s\<lparr>v1 := subVectors (v1 s) (center sphere) (origin this)\<rparr>;
          tca = dot (v1 s1) (direction this);
          d2 = jsub (dot (v1 s1) (v1 s1)) (jmul tca tca);
          radius2 = jmul (radius sphere) (radius sphere)
      in if jgt d2 radius2 then (Null, result, s1)
         else
           let thc = jsqrt (jsub radius2 d2);
               t0 = jsub tca thc;
               t1 = jadd tca thc
           in if jlt t0 (Num 0) \<and> jlt t1 (Num 0) then (Null, result, s1)
              else if jlt t0 (Num 0) then (ResultRef, at_ray this t1 result, s1)
              else (ResultRef, at_ray this t0 result, s1))"

definition intersectAABB :: "Ray \<Rightarrow> AABB \<Rightarrow> Vector3 \<Rightarrow> ret \<times> Vector3" where
  "intersectAABB this aabb result =
     (let invdirx = jdiv (Num 1) (vx (direction this));
          invdiry = jdiv (Num 1) (vy (direction this));
          invdirz = jdiv (Num 1) (vz (direction this));
          origin = origin this;
          (tmin, tmax) =
            (if jge invdirx (Num 0)
             then (jmul (jsub (vx (aabb_min aabb)) (vx origin)) invdirx,
                   jmul (jsub (vx (aabb_max aabb)) (vx origin)) invdirx)
             else (jmul (jsub (vx (aabb_max aabb)) (vx origin)) invdirx,
                   jmul (jsub (vx (aabb_min aabb)) (vx origin)) invdirx));
          (tymin, tymax) =
            (if jge invdiry (Num 0)
             then (jmul (jsub (vy (aabb_min aabb)) (vy origin)) invdiry,
                   jmul (jsub (vy (aabb_max aabb)) (vy origin)) invdiry)
             else (jmul (jsub (vy (aabb_max aabb)) (vy origin)) invdiry,
                   jmul (jsub (vy (aabb_min aabb)) (vy origin)) invdiry))
      in if jgt tmin tymax \<or> jgt tymin tmax then (Null, result)
         else
           let tmin = (if jgt tymin tmin \<or> strict_ne tmin tmin then tymin else tmin);
               tmax = (if jlt tymax tmax \<or> strict_ne tmax tmax then tymax else tmax);
               (tzmin, tzmax) =
                 (if jge invdirz (Num 0)
                  then (jmul (jsub (vz (aabb_min aabb)) (vz origin)) invdirz,
                        jmul (jsub (vz (aabb_max aabb)) (vz origin)) invdirz)
                  else (jmul (jsub (vz (aabb_max aabb)) (vz origin)) invdirz,
                        jmul (jsub (vz (aabb_min aabb)) (vz origin)) invdirz))
           in if jgt tmin tzmax \<or> jgt tzmin tmax then (Null, result)
              else
                let tmin = (if jgt tzmin tmin \<or> strict_ne tmin tmin then tzmin else tmin);
                    tmax = (if jlt tzmax tmax \<or> strict_ne tmax tmax then tzmax else tmax)
                in if jlt tmax (Num 0) then (Null, result)
                   else (ResultRef,
                         at_ray this (if jge tmin (Num 0) then tmin else tmax) result))"

text \<open>
  \<^verbatim>\<open>intersectTriangle\<close>, from the statement \<^verbatim>\<open>v1.subVectors( this.origin, a )\<close> on:
  the part that runs once \<open>sign\<close> is set and \<open>DdN\<close> is made positive.
\<close>

definition intersectTriangle_signed ::
  "Ray \<Rightarrow> Vector3 \<Rightarrow> jsnum \<Rightarrow> jsnum \<Rightarrow> Vector3 \<Rightarrow> scratch \<Rightarrow> ret \<times> Vector3 \<times> scratch" where
  "intersectTriangle_signed this a sign DdN result s =
     (let s1 = s\<lparr>v1 := subVectors (v1 s) (origin this) a\<rparr>;
          s2 = s1\<lparr>edge2 := crossVectors (edge2 s1) (v1 s1) (edge2 s1)\<rparr>;
          DdQxE2 = jmul sign (dot (direction this) (edge2 s2))
      in if jlt DdQxE2 (Num 0) then (Null, result, s2)
         else
           let s3 = s2\<lparr>edge1 := cross (edge1 s2) (v1 s2)\<rparr>;
               DdE1xQ = jmul sign (dot (direction this) (edge1 s3))
           in if jlt DdE1xQ (Num 0) then (Null, result, s3)
              else if jgt (jadd DdQxE2 DdE1xQ) DdN then (Null, result, s3)
              else
                let QdN = jmul (jneg sign) (dot (v1 s3) (normal s3))
                in if jlt QdN (Num 0) then (Null, result, s3)
                   else (ResultRef, at_ray this (jdiv QdN DdN) result, s3))"

definition intersectTriangle ::
  "Ray \<Rightarrow> Triangle \<Rightarrow> bool \<Rightarrow> Vector3 \<Rightarrow> scratch \<Rightarrow> ret \<times> Vector3 \<times> scratch" where
  "intersectTriangle this triangle backfaceCulling result s =
     (let a = tri_a triangle;
          b = tri_b triangle;
          c = tri_c triangle;
          s1 = s\<lparr>edge1 := subVectors (edge1 s) b a\<rparr>;
          s2 = s1\<lparr>edge2 := subVectors (edge2 s1) c a\<rparr>;
          s3 = s2\<lparr>normal := crossVectors (normal s2) (edge1 s2) (edge2 s2)\<rparr>;
          DdN = dot (direction this) (normal s3)
      in if jgt DdN (Num 0) then
           (if backfaceCulling then (Null, result, s3)
            else intersectTriangle_signed this a (Num 1) DdN result s3)
         else if jlt DdN (Num 0) then
           intersectTriangle_signed this a (Num (- 1)) (jneg DdN) result s3
         else (Null, result, s3))"

section \<open>Obstacle\<close>

text \<open>
  The geometry of a mesh: a flat array of coordinates, an array of vertex indices or
  \<^verbatim>\<open>null\<close>, the bounding box in local space and the culling flag.
\<close>

record MeshGeometry =
  vertices :: "jsnum list"
  indices :: "nat list option"
  aabb :: AABB
  backfaceCulling :: bool

record 'm Obstacle =
  geometry :: MeshGeometry
  worldMatrix :: 'm

text \<open>
  Reading an array beyond its end gives \<^verbatim>\<open>undefined\<close>, and so does reading it at
  \<^verbatim>\<open>undefined * 3\<close>. The coordinate read is handed to the matrix product, whose
  arithmetic turns \<^verbatim>\<open>undefined\<close> into NaN: the model reads NaN there.
\<close>

definition read_index :: "nat list \<Rightarrow> nat \<Rightarrow> nat option" where
  "read_index xs i = (if i < length xs then Some (xs ! i) else None)"

definition read_vertex :: "jsnum list \<Rightarrow> nat option \<Rightarrow> jsnum" where
  "read_vertex xs i =
     (case i of None \<Rightarrow> NaN | Some k \<Rightarrow> if k < length xs then xs ! k else NaN)"

text \<open>
  Modelled from the spec: \<^verbatim>\<open>AABB.js\<close> is not part of the sources at hand; \<^verbatim>\<open>copy\<close>
  takes over the two corners of the other box.
\<close>

definition copy_aabb :: "AABB \<Rightarrow> AABB \<Rightarrow> AABB" where
  "copy_aabb this b = this\<lparr>aabb_min := copy (aabb_min this) (aabb_min b),
                            aabb_max := copy (aabb_max this) (aabb_max b)\<rparr>"

text \<open>
  \<^verbatim>\<open>Matrix4.js\<close> is not part of the sources either. The two operations that take the world
  matrix, \<^verbatim>\<open>Vector3.applyMatrix4\<close> and \<^verbatim>\<open>AABB.applyMatrix4\<close>, are parameters of the
  model: \<open>xf m v\<close> is the contents of the vector \<open>v\<close> after \<^verbatim>\<open>v.applyMatrix4( m )\<close>, and
  \<open>xfb m b\<close> the contents of the box \<open>b\<close> after \<^verbatim>\<open>b.applyMatrix4( m )\<close>.
\<close>

text \<open>
  The first six statements of either loop body: the three corners are written to the
  module's triangle and each is transformed by the world matrix.
\<close>

definition load_triangle ::
  "('m \<Rightarrow> Vector3 \<Rightarrow> Vector3) \<Rightarrow> 'm \<Rightarrow> Triangle \<Rightarrow> jsnum list \<Rightarrow>
   nat option \<Rightarrow> nat option \<Rightarrow> nat option \<Rightarrow> Triangle" where
  "load_triangle xf m t vs ia ib ic =
     (let t1 = t\<lparr>tri_a := set_v (tri_a t) (read_vertex vs ia)
                    (read_vertex vs (map_option (\<lambda>k. k + 1) ia))
                    (read_vertex vs (map_option (\<lambda>k. k + 2) ia))\<rparr>;
          t2 = t1\<lparr>tri_b := set_v (tri_b t1) (read_vertex vs ib)
                    (read_vertex vs (map_option (\<lambda>k. k + 1) ib))
                    (read_vertex vs (map_option (\<lambda>k. k + 2) ib))\<rparr>;
          t3 = t2\<lparr>tri_c := set_v (tri_c t2) (read_vertex vs ic)
                    (read_vertex vs (map_option (\<lambda>k. k + 1) ic))
                    (read_vertex vs (map_option (\<lambda>k. k + 2) ic))\<rparr>;
          t4 = t3\<lparr>tri_a := xf m (tri_a t3)\<rparr>;
          t5 = t4\<lparr>tri_b := xf m (tri_b t4)\<rparr>
      in t5\<lparr>tri_c := xf m (tri_c t5)\<rparr>)"

text \<open>The loop over a non-indexed geometry, from the index \<open>i\<close> on.\<close>

function nonindexed_loop ::
  "('m \<Rightarrow> Vector3 \<Rightarrow> Vector3) \<Rightarrow> 'm Obstacle \<Rightarrow> Ray \<Rightarrow> nat \<Rightarrow> Vector3 \<Rightarrow> scratch
   \<Rightarrow> ret \<times> Vector3 \<times> scratch" where
  "nonindexed_loop xf this ray i result s =
     (if i < length (vertices (geometry this)) then
        (let s1 = s\<lparr>triangle_tmp := load_triangle xf (worldMatrix this) (triangle_tmp s)
                        (vertices (geometry this)) (Some i) (Some (i + 3)) (Some (i + 6))\<rparr>
         in case intersectTriangle ray (triangle_tmp s1) (backfaceCulling (geometry this)) result s1
            of (r, result', s2) \<Rightarrow>
              if r \<noteq> Null then (ResultRef, result', s2)
              else nonindexed_loop xf this ray (i + 9) result' s2)
      else (Null, result, s))"
  by pat_completeness auto
termination
  by (relation "measure (\<lambda>(xf, this, ray, i, result, s). length (vertices (geometry this)) - i)")
     auto

text \<open>The loop over an indexed geometry, from the position \<open>i\<close> of the index array
  \<open>ixs\<close> (\<^verbatim>\<open>indices\<close>) on.\<close>

function indexed_loop ::
  "('m \<Rightarrow> Vector3 \<Rightarrow> Vector3) \<Rightarrow> 'm Obstacle \<Rightarrow> nat list \<Rightarrow> Ray \<Rightarrow> nat \<Rightarrow> Vector3 \<Rightarrow> scratch
   \<Rightarrow> ret \<times> Vector3 \<times> scratch" where
  "indexed_loop xf this ixs ray i result s =
     (if i < length ixs then
        (let a = read_index ixs i;
             b = read_index ixs (i + 1);
             c = read_index ixs (i + 2);
             stride = 3;
             s1 = s\<lparr>triangle_tmp := load_triangle xf (worldMatrix this) (triangle_tmp s)
                        (vertices (geometry this))
                        (map_option (\<lambda>k. k * stride) a) (map_option (\<lambda>k. k * stride) b)
                        (map_option (\<lambda>k. k * stride) c)\<rparr>
         in case intersectTriangle ray (triangle_tmp s1) (backfaceCulling (geometry this)) result s1
            of (r, result', s2) \<Rightarrow>
              if r \<noteq> Null then (ResultRef, result', s2)
              else indexed_loop xf this ixs ray (i + 3) result' s2)
      else (Null, result, s))"
  by pat_completeness auto
termination
  by (relation "measure (\<lambda>(xf, this, ixs, ray, i, result, s). length ixs - i)") auto

definition intersectRay ::
  "('m \<Rightarrow> Vector3 \<Rightarrow> Vector3) \<Rightarrow> ('m \<Rightarrow> AABB \<Rightarrow> AABB) \<Rightarrow> 'm Obstacle \<Rightarrow> Ray \<Rightarrow> Vector3
   \<Rightarrow> scratch \<Rightarrow> ret \<times> Vector3 \<times> scratch" where
  "intersectRay xf xfb this ray result s =
     (let s1 = s\<lparr>aabb_tmp :=
                  xfb (worldMatrix this) (copy_aabb (aabb_tmp s) (aabb (geometry this)))\<rparr>
      in case intersectAABB ray (aabb_tmp s1) (intersectionPointAABB s1) of
           (r, p) \<Rightarrow>
             (let s2 = s1\<lparr>intersectionPointAABB := p\<rparr>
              in if r \<noteq> Null then
                   (case indices (geometry this) of
                      None \<Rightarrow> nonindexed_loop xf this ray 0 result s2
                    | Some ixs \<Rightarrow> indexed_loop xf this ixs ray 0 result s2)
                 else (Null, result, s2)))"

declare nonindexed_loop.simps [simp del] indexed_loop.simps [simp del]

section \<open>Notions used by the properties\<close>

subsection \<open>Finite vectors, lengths and distances\<close>

text \<open>A vector is finite when its three components are.\<close>

definition vfin :: "Vector3 \<Rightarrow> bool" where
  "vfin v = (fin (vx v) \<and> fin (vy v) \<and> fin (vz v))"


text \<open>The Euclidean distance between two finite points.\<close>

definition distance :: "Vector3 \<Rightarrow> Vector3 \<Rightarrow> real" where
  "distance p q =
     sqrt ((val (vx p) - val (vx q))\<^sup>2 + (val (vy p) - val (vy q))\<^sup>2
           + (val (vz p) - val (vz q))\<^sup>2)"

subsection \<open>The vector operations as values\<close>

text \<open>
  Every method of \<^verbatim>\<open>Vector3\<close> used here overwrites the three components of the vector it
  is called on, so its outcome does not depend on what that vector held before. The
  difference, the cross product and the point on a ray are given here as values.
\<close>

definition vsub :: "Vector3 \<Rightarrow> Vector3 \<Rightarrow> Vector3" where
  "vsub p q = \<lparr>vx = jsub (vx p) (vx q), vy = jsub (vy p) (vy q), vz = jsub (vz p) (vz q)\<rparr>"

definition vcross :: "Vector3 \<Rightarrow> Vector3 \<Rightarrow> Vector3" where
  "vcross p q = \<lparr>vx = jsub (jmul (vy p) (vz q)) (jmul (vz p) (vy q)),
                  vy = jsub (jmul (vz p) (vx q)) (jmul (vx p) (vz q)),
                  vz = jsub (jmul (vx p) (vy q)) (jmul (vy p) (vx q))\<rparr>"

definition point_at :: "Ray \<Rightarrow> jsnum \<Rightarrow> Vector3" where
  "point_at r t = \<lparr>vx = jadd (jmul (vx (direction r)) t) (vx (origin r)),
                    vy = jadd (jmul (vy (direction r)) t) (vy (origin r)),
                    vz = jadd (jmul (vz (direction r)) t) (vz (origin r))\<rparr>"

text \<open>
  What the caller receives: nothing for \<^verbatim>\<open>null\<close>, else the contents of \<open>result\<close>.
\<close>

definition returned :: "ret \<times> Vector3 \<times> 's \<Rightarrow> Vector3 option" where
  "returned out = (case fst out of Null \<Rightarrow> None | ResultRef \<Rightarrow> Some (fst (snd out)))"

subsection \<open>The triangle test in the words of the specification\<close>

text \<open>
  The accept/reject rule of the ray-triangle test in the words of the specification:
  no hit when \<open>DdN\<close> is zero (or not a number), none on a back face under culling,
  and otherwise a hit unless one of the four strict comparisons rejects; the hit is the
  point at \<open>t = QdN / DdN\<close>.
\<close>

definition triangle_hit :: "Ray \<Rightarrow> Triangle \<Rightarrow> bool \<Rightarrow> Vector3 option" where
  "triangle_hit r T cull =
     (let e1 = vsub (tri_b T) (tri_a T);
          e2 = vsub (tri_c T) (tri_a T);
          n = vcross e1 e2;
          DdN = dot (direction r) n;
          q = vsub (origin r) (tri_a T)
      in if isnan DdN \<or> jzero DdN then None
         else if jgt DdN (Num 0) \<and> cull then None
         else
           let sign = (if jgt DdN (Num 0) then Num 1 else Num (- 1));
               D = (if jgt DdN (Num 0) then DdN else jneg DdN);
               X = jmul sign (dot (direction r) (vcross q e2));
               Y = jmul sign (dot (direction r) (vcross e1 q));
               Q = jmul (jneg sign) (dot q n)
           in if jlt X (Num 0) \<or> jlt Y (Num 0) \<or> jgt (jadd X Y) D \<or> jlt Q (Num 0) then None
              else Some (point_at r (jdiv Q D)))"

text \<open>
  The four comparisons and the hit point for a given sign and positive denominator.
\<close>

definition signed_hit ::
  "Ray \<Rightarrow> Vector3 \<Rightarrow> Vector3 \<Rightarrow> Vector3 \<Rightarrow> Vector3 \<Rightarrow> jsnum \<Rightarrow> jsnum \<Rightarrow> Vector3 option" where
  "signed_hit r q e1 e2 n sign D =
     (let X = jmul sign (dot (direction r) (vcross q e2));
          Y = jmul sign (dot (direction r) (vcross e1 q));
          Q = jmul (jneg sign) (dot q n)
      in if jlt X (Num 0) \<or> jlt Y (Num 0) \<or> jgt (jadd X Y) D \<or> jlt Q (Num 0) then None
         else Some (point_at r (jdiv Q D)))"

subsection \<open>The slab intervals of the box test\<close>

text \<open>
  The interval of one axis: the entry and the exit parameter against the two planes of
  the box on that axis, swapped when the reciprocal of the direction component is not
  \<open>\<ge> 0\<close>.
\<close>

definition slab :: "jsnum \<Rightarrow> jsnum \<Rightarrow> jsnum \<Rightarrow> jsnum \<Rightarrow> jsnum \<times> jsnum" where
  "slab lo hi p d =
     (let invdir = jdiv (Num 1) d
      in if jge invdir (Num 0) then (jmul (jsub lo p) invdir, jmul (jsub hi p) invdir)
         else (jmul (jsub hi p) invdir, jmul (jsub lo p) invdir))"

definition slab_x :: "Ray \<Rightarrow> AABB \<Rightarrow> jsnum \<times> jsnum" where
  "slab_x r box = slab (vx (aabb_min box)) (vx (aabb_max box)) (vx (origin r)) (vx (direction r))"

definition slab_y :: "Ray \<Rightarrow> AABB \<Rightarrow> jsnum \<times> jsnum" where
  "slab_y r box = slab (vy (aabb_min box)) (vy (aabb_max box)) (vy (origin r)) (vy (direction r))"

definition slab_z :: "Ray \<Rightarrow> AABB \<Rightarrow> jsnum \<times> jsnum" where
  "slab_z r box = slab (vz (aabb_min box)) (vz (aabb_max box)) (vz (origin r)) (vz (direction r))"

text \<open>
  The pairwise interval test, and the fold of the next axis into the interval kept so
  far: a larger entry and a smaller exit replace the ones kept, and so does any value
  when the one kept is NaN.
\<close>

definition interval_test_fails :: "jsnum \<times> jsnum \<Rightarrow> jsnum \<times> jsnum \<Rightarrow> bool" where
  "interval_test_fails I J = (jgt (fst I) (snd J) \<or> jgt (fst J) (snd I))"

definition fold_interval :: "jsnum \<times> jsnum \<Rightarrow> jsnum \<times> jsnum \<Rightarrow> jsnum \<times> jsnum" where
  "fold_interval I J =
     (if jgt (fst J) (fst I) \<or> isnan (fst I) then fst J else fst I,
      if jlt (snd J) (snd I) \<or> isnan (snd I) then snd J else snd I)"

text \<open>
  The parameter of the point that the box test returns, if any.
\<close>

definition aabb_hit_t :: "Ray \<Rightarrow> AABB \<Rightarrow> jsnum option" where
  "aabb_hit_t r box =
     (let X = slab_x r box; Y = slab_y r box; Z = slab_z r box
      in if interval_test_fails X Y then None
         else
           let XY = fold_interval X Y
           in if interval_test_fails XY Z then None
              else
                let F = fold_interval XY Z
                in if jlt (snd F) (Num 0) then None
                   else Some (if jge (fst F) (Num 0) then fst F else snd F))"

subsection \<open>The ray and the box as point sets\<close>

text \<open>
  A bound of the model, read as a constraint on a real parameter \<open>t\<close>: an infinity
  on its own side and a NaN constrain nothing, an infinity on the other side excludes
  every \<open>t\<close>.
\<close>

fun lower_ok :: "jsnum \<Rightarrow> real \<Rightarrow> bool" where
  "lower_ok (Num a) t = (a \<le> t)"
| "lower_ok NegZero t = (0 \<le> t)"
| "lower_ok PInf t = False"
| "lower_ok NInf t = True"
| "lower_ok NaN t = True"

fun upper_ok :: "jsnum \<Rightarrow> real \<Rightarrow> bool" where
  "upper_ok (Num b) t = (t \<le> b)"
| "upper_ok NegZero t = (t \<le> 0)"
| "upper_ok PInf t = True"
| "upper_ok NInf t = False"
| "upper_ok NaN t = True"

text \<open>
  The point of the ray at the parameter \<open>t\<close> lies between the two planes of one axis;
  the ray meets the closed box when some \<open>t \<ge> 0\<close> does so on the three axes. A box is
  valid when its corners are finite and \<open>min \<le> max\<close> holds on each axis.
\<close>

definition in_slab :: "jsnum \<Rightarrow> jsnum \<Rightarrow> jsnum \<Rightarrow> jsnum \<Rightarrow> real \<Rightarrow> bool" where
  "in_slab lo hi p d t = (val lo \<le> val p + t * val d \<and> val p + t * val d \<le> val hi)"

definition ray_hits_box :: "Ray \<Rightarrow> AABB \<Rightarrow> bool" where
  "ray_hits_box r box =
     (\<exists>t. 0 \<le> t
        \<and> in_slab (vx (aabb_min box)) (vx (aabb_max box)) (vx (origin r)) (vx (direction r)) t
        \<and> in_slab (vy (aabb_min box)) (vy (aabb_max box)) (vy (origin r)) (vy (direction r)) t
        \<and> in_slab (vz (aabb_min box)) (vz (aabb_max box)) (vz (origin r)) (vz (direction r)) t)"

definition valid_box :: "AABB \<Rightarrow> bool" where
  "valid_box box =
     (vfin (aabb_min box) \<and> vfin (aabb_max box)
      \<and> val (vx (aabb_min box)) \<le> val (vx (aabb_max box))
      \<and> val (vy (aabb_min box)) \<le> val (vy (aabb_max box))
      \<and> val (vz (aabb_min box)) \<le> val (vz (aabb_max box)))"

text \<open>A finite point inside a box.\<close>

definition box_contains :: "AABB \<Rightarrow> Vector3 \<Rightarrow> bool" where
  "box_contains box v =
     (vfin v
      \<and> val (vx (aabb_min box)) \<le> val (vx v) \<and> val (vx v) \<le> val (vx (aabb_max box))
      \<and> val (vy (aabb_min box)) \<le> val (vy v) \<and> val (vy v) \<le> val (vy (aabb_max box))
      \<and> val (vz (aabb_min box)) \<le> val (vz v) \<and> val (vz v) \<le> val (vz (aabb_max box)))"

subsection \<open>The triangles of a geometry\<close>

text \<open>
  The vertex whose first coordinate stands at the position \<open>k\<close> of the vertex buffer
  (no position for an index read beyond the index buffer).
\<close>

definition vertex_at :: "jsnum list \<Rightarrow> nat option \<Rightarrow> Vector3" where
  "vertex_at vs k = \<lparr>vx = read_vertex vs k, vy = read_vertex vs (map_option (\<lambda>k. k + 1) k),
                      vz = read_vertex vs (map_option (\<lambda>k. k + 2) k)\<rparr>"

text \<open>
  Non-indexed geometry: the triangle number \<open>k\<close> is made of the nine coordinates from
  \<open>9k\<close> on, and there is one triangle for each started group of nine.
\<close>

definition nonindexed_triangle :: "jsnum list \<Rightarrow> nat \<Rightarrow> Triangle" where
  "nonindexed_triangle vs k =
     \<lparr>tri_a = vertex_at vs (Some (9 * k)), tri_b = vertex_at vs (Some (9 * k + 3)),
      tri_c = vertex_at vs (Some (9 * k + 6))\<rparr>"

definition nonindexed_triangles :: "jsnum list \<Rightarrow> Triangle list" where
  "nonindexed_triangles vs = map (nonindexed_triangle vs) [0..<(length vs + 8) div 9]"

text \<open>
  Indexed geometry: the triangle number \<open>k\<close> is made of the three indices from
  \<open>3k\<close> on, the index \<open>i\<close> naming the coordinates \<open>3i\<close>, \<open>3i + 1\<close> and \<open>3i + 2\<close>.
\<close>

definition indexed_triangle :: "jsnum list \<Rightarrow> nat list \<Rightarrow> nat \<Rightarrow> Triangle" where
  "indexed_triangle vs ixs k =
     \<lparr>tri_a = vertex_at vs (map_option (\<lambda>a. a * 3) (read_index ixs (3 * k))),
      tri_b = vertex_at vs (map_option (\<lambda>b. b * 3) (read_index ixs (3 * k + 1))),
      tri_c = vertex_at vs (map_option (\<lambda>c. c * 3) (read_index ixs (3 * k + 2)))\<rparr>"

definition indexed_triangles :: "jsnum list \<Rightarrow> nat list \<Rightarrow> Triangle list" where
  "indexed_triangles vs ixs = map (indexed_triangle vs ixs) [0..<(length ixs + 2) div 3]"

text \<open>
  The triangles in world space, in buffer order, and the bounding box in world space.
\<close>

definition transform_triangle :: "('m \<Rightarrow> Vector3 \<Rightarrow> Vector3) \<Rightarrow> 'm \<Rightarrow> Triangle \<Rightarrow> Triangle" where
  "transform_triangle xf m T = \<lparr>tri_a = xf m (tri_a T), tri_b = xf m (tri_b T), tri_c = xf m (tri_c T)\<rparr>"

definition world_triangles :: "('m \<Rightarrow> Vector3 \<Rightarrow> Vector3) \<Rightarrow> 'm Obstacle \<Rightarrow> Triangle list" where
  "world_triangles xf ob =
     map (transform_triangle xf (worldMatrix ob))
       (case indices (geometry ob) of
          None \<Rightarrow> nonindexed_triangles (vertices (geometry ob))
        | Some ixs \<Rightarrow> indexed_triangles (vertices (geometry ob)) ixs)"

definition world_aabb :: "('m \<Rightarrow> AABB \<Rightarrow> AABB) \<Rightarrow> 'm Obstacle \<Rightarrow> AABB" where
  "world_aabb xfb ob = xfb (worldMatrix ob) (aabb (geometry ob))"

text \<open>
  The first hit in list order.
\<close>

fun first_hit :: "Ray \<Rightarrow> bool \<Rightarrow> Triangle list \<Rightarrow> Vector3 option" where
  "first_hit ray cull [] = None"
| "first_hit ray cull (T # Ts) =
     (case triangle_hit ray T cull of Some p \<Rightarrow> Some p | None \<Rightarrow> first_hit ray cull Ts)"

text \<open>
  The scan of a list of triangles as both loops of \<^verbatim>\<open>intersectRay\<close> run it: the
  triangle is written to the working triangle, tested, and the first hit ends the scan.
\<close>

fun scan :: "Ray \<Rightarrow> bool \<Rightarrow> Triangle list \<Rightarrow> Vector3 \<Rightarrow> scratch \<Rightarrow> ret \<times> Vector3 \<times> scratch" where
  "scan ray cull [] result s = (Null, result, s)"
| "scan ray cull (T # Ts) result s =
     (let s1 = s\<lparr>triangle_tmp := T\<rparr>
      in case intersectTriangle ray (triangle_tmp s1) cull result s1 of
           (r, result', s2) \<Rightarrow>
             if r \<noteq> Null then (ResultRef, result', s2) else scan ray cull Ts result' s2)"

subsection \<open>Inputs of the examples\<close>

text \<open>
  Vectors with finite coordinates, a working storage filled with zeros, the unit box, the
  unit sphere and the triangle of the end-to-end scenarios of the specification.
\<close>

definition vec :: "real \<Rightarrow> real \<Rightarrow> real \<Rightarrow> Vector3" where
  "vec a b c = \<lparr>vx = Num a, vy = Num b, vz = Num c\<rparr>"

definition scratch0 :: scratch where
  "scratch0 = \<lparr>v1 = vec 0 0 0, edge1 = vec 0 0 0, edge2 = vec 0 0 0, normal = vec 0 0 0,
     aabb_tmp = \<lparr>aabb_min = vec 0 0 0, aabb_max = vec 0 0 0\<rparr>,
     triangle_tmp = \<lparr>tri_a = vec 0 0 0, tri_b = vec 0 0 0, tri_c = vec 0 0 0\<rparr>,
     intersectionPointAABB = vec 0 0 0\<rparr>"

definition ray_from :: "Vector3 \<Rightarrow> Vector3 \<Rightarrow> Ray" where
  "ray_from p d = \<lparr>origin = p, direction = d\<rparr>"

definition unit_box :: AABB where
  "unit_box = \<lparr>aabb_min = vec (- 1) (- 1) (- 1), aabb_max = vec 1 1 1\<rparr>"

definition unit_sphere :: BoundingSphere where
  "unit_sphere = \<lparr>center = vec 0 0 0, radius = Num 1\<rparr>"

definition spec_triangle :: Triangle where
  "spec_triangle = \<lparr>tri_a = vec (- 1) 0 0, tri_b = vec 1 0 0, tri_c = vec 0 1 0\<rparr>"

definition tri_ray :: Ray where
  "tri_ray = ray_from (vec 0 (3 / 10) (- 5)) (vec 0 0 1)"

text \<open>
  Obstacles under the identity transform: a mesh of two parallel triangles, the farther
  one first in the buffer; the same mesh with a stored bounding box that does not
  enclose it; an indexed mesh; and a geometry whose buffers are not well formed.
\<close>

definition identity_xf :: "unit \<Rightarrow> Vector3 \<Rightarrow> Vector3" where
  "identity_xf m v = v"

definition identity_xfb :: "unit \<Rightarrow> AABB \<Rightarrow> AABB" where
  "identity_xfb m b = b"

definition two_layer_vertices :: "jsnum list" where
  "two_layer_vertices =
     [Num (- 1), Num 0, Num 2, Num 1, Num 0, Num 2, Num 0, Num 1, Num 2,
      Num (- 1), Num 0, Num 0, Num 1, Num 0, Num 0, Num 0, Num 1, Num 0]"

definition two_layer_obstacle :: "unit Obstacle" where
  "two_layer_obstacle =
     \<lparr>geometry = \<lparr>vertices = two_layer_vertices, indices = None,
                   aabb = \<lparr>aabb_min = vec (- 1) 0 0, aabb_max = vec 1 1 2\<rparr>,
                   backfaceCulling = False\<rparr>,
      worldMatrix = ()\<rparr>"

definition stale_box_obstacle :: "unit Obstacle" where
  "stale_box_obstacle =
     \<lparr>geometry = \<lparr>vertices = two_layer_vertices, indices = None,
                   aabb = \<lparr>aabb_min = vec 10 10 10, aabb_max = vec 11 11 11\<rparr>,
                   backfaceCulling = False\<rparr>,
      worldMatrix = ()\<rparr>"

definition indexed_obstacle :: "unit Obstacle" where
  "indexed_obstacle =
     \<lparr>geometry = \<lparr>vertices = [Num 5, Num 5, Num 5, Num (- 1), Num 0, Num 0, Num 1, Num 0, Num 0,
                               Num 0, Num 1, Num 0],
                   indices = Some [1, 2, 3],
                   aabb = \<lparr>aabb_min = vec (- 1) 0 0, aabb_max = vec 5 5 5\<rparr>,
                   backfaceCulling = False\<rparr>,
      worldMatrix = ()\<rparr>"

definition malformed_obstacle :: "unit Obstacle" where
  "malformed_obstacle =
     \<lparr>geometry = \<lparr>vertices = [Num 1, NaN, PInf, Num 2, Num 3], indices = Some [7, 0],
                   aabb = unit_box, backfaceCulling = True\<rparr>,
      worldMatrix = ()\<rparr>"

section \<open>Finite numbers are real numbers\<close>

lemma fin_jneg [simp]: "fin a \<Longrightarrow> fin (jneg a)"
  by (cases a) simp_all

lemma val_jneg [simp]: "fin a \<Longrightarrow> val (jneg a) = - val a"
  by (cases a) simp_all

lemma fin_jadd [simp]: "fin a \<Longrightarrow> fin b \<Longrightarrow> fin (jadd a b)"
  by (cases a; cases b) (simp_all add: jadd_def finite_of_def zero_of_def)

lemma val_jadd [simp]: "fin a \<Longrightarrow> fin b \<Longrightarrow> val (jadd a b) = val a + val b"
  by (cases a; cases b) (simp_all add: jadd_def finite_of_def zero_of_def)

lemma fin_jsub [simp]: "fin a \<Longrightarrow> fin b \<Longrightarrow> fin (jsub a b)"
  by (simp add: jsub_def)

lemma val_jsub [simp]: "fin a \<Longrightarrow> fin b \<Longrightarrow> val (jsub a b) = val a - val b"
  by (simp add: jsub_def)

lemma fin_jmul [simp]: "fin a \<Longrightarrow> fin b \<Longrightarrow> fin (jmul a b)"
  by (cases a; cases b) (simp_all add: jmul_def finite_of_def zero_of_def)

lemma val_jmul [simp]: "fin a \<Longrightarrow> fin b \<Longrightarrow> val (jmul a b) = val a * val b"
  by (cases a; cases b) (simp_all add: jmul_def finite_of_def zero_of_def)

lemma fin_jdiv [simp]: "fin a \<Longrightarrow> fin b \<Longrightarrow> val b \<noteq> 0 \<Longrightarrow> fin (jdiv a b)"
  by (cases a; cases b) (simp_all add: jdiv_def finite_of_def zero_of_def)

lemma val_jdiv [simp]: "fin a \<Longrightarrow> fin b \<Longrightarrow> val b \<noteq> 0 \<Longrightarrow> val (jdiv a b) = val a / val b"
  by (cases a; cases b) (simp_all add: jdiv_def finite_of_def zero_of_def)

lemma fin_jsqrt [simp]: "fin a \<Longrightarrow> 0 \<le> val a \<Longrightarrow> fin (jsqrt a)"
  by (cases a) simp_all

lemma val_jsqrt [simp]: "fin a \<Longrightarrow> 0 \<le> val a \<Longrightarrow> val (jsqrt a) = sqrt (val a)"
  by (cases a) simp_all

lemma jlt_fin [simp]: "fin a \<Longrightarrow> fin b \<Longrightarrow> jlt a b = (val a < val b)"
  by (cases a; cases b) simp_all

lemma jgt_fin [simp]: "fin a \<Longrightarrow> fin b \<Longrightarrow> jgt a b = (val b < val a)"
  by (simp add: jgt_def)

lemma isnan_fin [simp]: "fin a \<Longrightarrow> \<not> isnan a"
  by (cases a) simp_all

lemma jge_fin [simp]: "fin a \<Longrightarrow> fin b \<Longrightarrow> jge a b = (val b \<le> val a)"
  by (auto simp add: jge_def)

lemma strict_ne_self [simp]: "strict_ne a a = isnan a"
  by (cases a) (simp_all add: strict_ne_def strict_eq_def)

subsection \<open>Comparisons with zero, and NaN\<close>

lemma zero_cases: "\<not> isnan a \<Longrightarrow> \<not> jgt a (Num 0) \<Longrightarrow> \<not> jlt a (Num 0) \<Longrightarrow> jzero a"
  by (cases a) (simp_all add: jgt_def)

lemma gt_not_lt: "jgt a (Num 0) \<Longrightarrow> \<not> jlt a (Num 0) \<and> \<not> isnan a \<and> \<not> jzero a"
  by (cases a) (simp_all add: jgt_def)

lemma lt_props: "jlt a (Num 0) \<Longrightarrow> \<not> isnan a \<and> \<not> jzero a"
  by (cases a) (simp_all add: jgt_def)

lemma jzero_cases: "jzero a \<Longrightarrow> \<not> isnan a \<and> \<not> jgt a (Num 0) \<and> \<not> jlt a (Num 0)"
  by (cases a) (simp_all add: jgt_def)

lemma jzero_fin: "fin a \<Longrightarrow> jzero a = (val a = 0)"
  by (cases a) simp_all


lemma jlt_not_ge: "jlt a b \<Longrightarrow> \<not> jge a b"
  by (simp add: jge_def)







lemma jge_zero_simps:
  "jge PInf (Num 0)" "\<not> jge NInf (Num 0)" "jge (Num c) (Num 0) = (0 \<le> c)"
  by (auto simp add: jge_def)

subsection \<open>Products with an infinity, and the reciprocal\<close>

lemma jmul_PInf:
  "fin a \<Longrightarrow> jmul a PInf = (if val a = 0 then NaN else if val a < 0 then NInf else PInf)"
  by (cases a) (auto simp add: jmul_def inf_of_def)

lemma jmul_NInf:
  "fin a \<Longrightarrow> jmul a NInf = (if val a = 0 then NaN else if val a < 0 then PInf else NInf)"
  by (cases a) (auto simp add: jmul_def inf_of_def)

lemma jdiv_one:
  "fin d \<Longrightarrow> jdiv (Num 1) d =
     (if val d = 0 then (if signbit d then NInf else PInf) else Num (1 / val d))"
  by (cases d) (auto simp add: jdiv_def inf_of_def finite_of_def zero_of_def)

subsection \<open>Arithmetic on numerals\<close>

lemma jadd_Num: "jadd (Num a) (Num b) = Num (a + b)"
  by (simp add: jadd_def finite_of_def zero_of_def)

lemma jsub_Num: "jsub (Num a) (Num b) = Num (a - b)"
  by (simp add: jsub_def jadd_def finite_of_def zero_of_def)

lemma jmul_Num:
  "jmul (Num a) (Num b) = (if a * b = 0 \<and> ((a < 0) \<noteq> (b < 0)) then NegZero else Num (a * b))"
  by (simp add: jmul_def finite_of_def zero_of_def)

lemma jgt_Num: "jgt (Num a) (Num b) = (b < a)"
  by (simp add: jgt_def)

subsection \<open>Convex combinations and scaled equations of reals\<close>

lemma convex_lower:
  fixes u v m a b c :: real
  assumes "0 \<le> u" "0 \<le> v" "u + v \<le> 1" "m \<le> a" "m \<le> b" "m \<le> c"
  shows "m \<le> a + u * (b - a) + v * (c - a)"
proof -
  have "(1 - u - v) * m \<le> (1 - u - v) * a" "u * m \<le> u * b" "v * m \<le> v * c"
    using assms by (simp_all add: mult_left_mono)
  then have "(1 - u - v) * m + u * m + v * m \<le> (1 - u - v) * a + u * b + v * c"
    by linarith
  then show ?thesis
    by (simp add: algebra_simps)
qed

lemma convex_upper:
  fixes u v m a b c :: real
  assumes "0 \<le> u" "0 \<le> v" "u + v \<le> 1" "a \<le> m" "b \<le> m" "c \<le> m"
  shows "a + u * (b - a) + v * (c - a) \<le> m"
proof -
  have "(1 - u - v) * a \<le> (1 - u - v) * m" "u * b \<le> u * m" "v * c \<le> v * m"
    using assms by (simp_all add: mult_left_mono)
  then have "(1 - u - v) * a + u * b + v * c \<le> (1 - u - v) * m + u * m + v * m"
    by linarith
  then show ?thesis
    by (simp add: algebra_simps)
qed

lemma scaled_component:
  fixes D Q X Y q d e1 e2 :: real
  assumes "0 < D" and "D * q + Q * d = X * e1 + Y * e2"
  shows "q + (Q / D) * d = (X / D) * e1 + (Y / D) * e2"
proof -
  have "D * (q + (Q / D) * d) = D * ((X / D) * e1 + (Y / D) * e2)"
    using assms by (simp add: algebra_simps)
  then show ?thesis
    using assms(1) by simp
qed

section \<open>The vector primitives compute fresh values\<close>

lemma set_v_pure [simp]: "set_v this x y z = \<lparr>vx = x, vy = y, vz = z\<rparr>"
  by (simp add: set_v_def)

lemma copy_pure [simp]: "copy this v = v"
  by (simp add: copy_def)

lemma subVectors_pure [simp]: "subVectors this p q = vsub p q"
  by (simp add: subVectors_def vsub_def)

lemma crossVectors_pure [simp]: "crossVectors this p q = vcross p q"
  by (simp add: crossVectors_def vcross_def)

lemma cross_pure [simp]: "cross this v = vcross this v"
  by (simp add: cross_def)

lemma at_ray_pure [simp]: "at_ray r t result = point_at r t"
  by (simp add: at_ray_def add_def multiplyScalar_def point_at_def)

lemma copy_aabb_pure [simp]: "copy_aabb this b = b"
  by (simp add: copy_aabb_def)

lemma fin_dot [simp]: "vfin a \<Longrightarrow> vfin b \<Longrightarrow> fin (dot a b)"
  by (simp add: vfin_def dot_def)

lemma vfin_vsub [simp]: "vfin a \<Longrightarrow> vfin b \<Longrightarrow> vfin (vsub a b)"
  by (simp add: vfin_def vsub_def)

lemma vsub_sel:
  "vx (vsub p q) = jsub (vx p) (vx q)" "vy (vsub p q) = jsub (vy p) (vy q)"
  "vz (vsub p q) = jsub (vz p) (vz q)"
  by (simp_all add: vsub_def)

lemma vcross_sel:
  "vx (vcross p q) = jsub (jmul (vy p) (vz q)) (jmul (vz p) (vy q))"
  "vy (vcross p q) = jsub (jmul (vz p) (vx q)) (jmul (vx p) (vz q))"
  "vz (vcross p q) = jsub (jmul (vx p) (vy q)) (jmul (vy p) (vx q))"
  by (simp_all add: vcross_def)

lemma vfin_vcross: "vfin a \<Longrightarrow> vfin b \<Longrightarrow> vfin (vcross a b)"
  by (simp add: vfin_def vcross_sel)

lemma val_dot:
  "vfin a \<Longrightarrow> vfin b \<Longrightarrow>
   val (dot a b) = val (vx a) * val (vx b) + val (vy a) * val (vy b) + val (vz a) * val (vz b)"
  by (simp add: vfin_def dot_def)

lemma returned_simps [simp]:
  "returned (Null, p, s) = None" "returned (ResultRef, p, s) = Some p"
  by (simp_all add: returned_def)

lemma returned_if: "returned (if c then u else w) = (if c then returned u else returned w)"
  by simp

lemma returned_None_iff: "returned out = None \<longleftrightarrow> fst out = Null"
  by (cases "fst out") (simp_all add: returned_def)

lemma returned_Some_iff: "returned out = Some p \<longleftrightarrow> fst out = ResultRef \<and> fst (snd out) = p"
  by (cases "fst out") (auto simp add: returned_def)

section \<open>Ray.at\<close>



section \<open>Ray.intersectTriangle\<close>

lemma intersectTriangle_signed_returned:
  "returned (intersectTriangle_signed r a sign D result s) =
     (let q = vsub (origin r) a;
          X = jmul sign (dot (direction r) (vcross q (edge2 s)));
          Y = jmul sign (dot (direction r) (vcross (edge1 s) q));
          Q = jmul (jneg sign) (dot q (normal s))
      in if jlt X (Num 0) \<or> jlt Y (Num 0) \<or> jgt (jadd X Y) D \<or> jlt Q (Num 0) then None
         else Some (point_at r (jdiv Q D)))"
  by (simp add: intersectTriangle_signed_def Let_def returned_if)

lemma intersectTriangle_branches:
  "returned (intersectTriangle r T cull result s) =
     (let e1 = vsub (tri_b T) (tri_a T);
          e2 = vsub (tri_c T) (tri_a T);
          n = vcross e1 e2;
          DdN = dot (direction r) n;
          q = vsub (origin r) (tri_a T)
      in if jgt DdN (Num 0) then
           (if cull then None else signed_hit r q e1 e2 n (Num 1) DdN)
         else if jlt DdN (Num 0) then signed_hit r q e1 e2 n (Num (- 1)) (jneg DdN)
         else None)"
  by (simp add: intersectTriangle_def intersectTriangle_signed_returned signed_hit_def Let_def
        returned_if)

lemma triangle_hit_branches:
  "triangle_hit r T cull =
     (let e1 = vsub (tri_b T) (tri_a T);
          e2 = vsub (tri_c T) (tri_a T);
          n = vcross e1 e2;
          DdN = dot (direction r) n;
          q = vsub (origin r) (tri_a T)
      in if jgt DdN (Num 0) then
           (if cull then None else signed_hit r q e1 e2 n (Num 1) DdN)
         else if jlt DdN (Num 0) then signed_hit r q e1 e2 n (Num (- 1)) (jneg DdN)
         else None)"
proof -
  define DdN where
    "DdN = dot (direction r) (vcross (vsub (tri_b T) (tri_a T)) (vsub (tri_c T) (tri_a T)))"
  consider (pos) "jgt DdN (Num 0)" | (neg) "\<not> jgt DdN (Num 0)" "jlt DdN (Num 0)"
    | (none) "\<not> jgt DdN (Num 0)" "\<not> jlt DdN (Num 0)"
    by blast
  then show ?thesis
  proof cases
    case pos
    then show ?thesis
      using gt_not_lt [OF pos]
      by (simp add: triangle_hit_def signed_hit_def Let_def DdN_def [symmetric])
  next
    case neg
    then show ?thesis
      using lt_props [OF neg(2)]
      by (simp add: triangle_hit_def signed_hit_def Let_def DdN_def [symmetric])
  next
    case none
    then have "isnan DdN \<or> jzero DdN"
      using zero_cases by blast
    with none show ?thesis
      by (simp add: triangle_hit_def signed_hit_def Let_def DdN_def [symmetric])
  qed
qed

lemma intersectTriangle_returned:
  "returned (intersectTriangle r T cull result s) = triangle_hit r T cull"
  by (simp only: intersectTriangle_branches triangle_hit_branches)

lemma intersectTriangle_signed_frame:
  "fst (intersectTriangle_signed r a sg D result s) = Null \<Longrightarrow>
   fst (snd (intersectTriangle_signed r a sg D result s)) = result"
  by (simp add: intersectTriangle_signed_def Let_def split: if_splits)

lemma intersectTriangle_frame:
  "fst (intersectTriangle r T cull result s) = Null \<Longrightarrow>
   fst (snd (intersectTriangle r T cull result s)) = result"
  by (simp add: intersectTriangle_def Let_def intersectTriangle_signed_frame split: if_splits)

lemma intersectTriangle_signed_keeps_triangle:
  "triangle_tmp (snd (snd (intersectTriangle_signed r a sg D result s))) = triangle_tmp s"
  by (simp add: intersectTriangle_signed_def Let_def)

lemma intersectTriangle_keeps_triangle:
  "triangle_tmp (snd (snd (intersectTriangle r T cull result s))) = triangle_tmp s"
  by (simp add: intersectTriangle_def Let_def intersectTriangle_signed_keeps_triangle)

text \<open>
  Claim C1. \<^verbatim>\<open>Ray.intersectTriangle\<close> returns \<^verbatim>\<open>null\<close> when \<open>DdN\<close> is zero, and when
  \<open>DdN > 0\<close> under backface culling. For every other number \<open>DdN\<close> it rejects exactly
  when \<open>sign * direction \<cdot> (v1 \<times> edge2) < 0\<close>, or \<open>sign * direction \<cdot> (edge1 \<times> v1) < 0\<close>,
  or the sum of the two exceeds the positive \<open>DdN\<close>, or \<open>- sign * v1 \<cdot> normal < 0\<close>; and
  when it accepts, it returns the point at \<open>t = QdN / DdN\<close>.
\<close>

theorem intersectTriangle_accept_reject:
  "let e1 = vsub (tri_b T) (tri_a T);
       e2 = vsub (tri_c T) (tri_a T);
       n = vcross e1 e2;
       DdN = dot (direction r) n;
       q = vsub (origin r) (tri_a T);
       sign = (if jgt DdN (Num 0) then Num 1 else Num (- 1));
       D = (if jgt DdN (Num 0) then DdN else jneg DdN);
       X = jmul sign (dot (direction r) (vcross q e2));
       Y = jmul sign (dot (direction r) (vcross e1 q));
       Q = jmul (jneg sign) (dot q n);
       out = intersectTriangle r T cull result s
   in (jzero DdN \<longrightarrow> returned out = None)
    \<and> (jgt DdN (Num 0) \<and> cull \<longrightarrow> returned out = None)
    \<and> (\<not> isnan DdN \<and> \<not> jzero DdN \<and> \<not> (jgt DdN (Num 0) \<and> cull) \<longrightarrow>
         (returned out = None) =
           (jlt X (Num 0) \<or> jlt Y (Num 0) \<or> jgt (jadd X Y) D \<or> jlt Q (Num 0))
         \<and> (returned out \<noteq> None \<longrightarrow> returned out = Some (at_ray r (jdiv Q D) result)))"
  unfolding Let_def intersectTriangle_returned
  by (simp add: triangle_hit_def Let_def jzero_cases)

theorem intersectTriangle_accept_reject_witness:
  "returned (intersectTriangle tri_ray spec_triangle False (vec 9 9 9) scratch0)
     = Some (vec 0 (3 / 10) 0)
   \<and> returned (intersectTriangle tri_ray spec_triangle True (vec 9 9 9) scratch0) = None
   \<and> returned (intersectTriangle (ray_from (vec 0 0 (- 5)) (vec 1 0 0)) spec_triangle False
        (vec 9 9 9) scratch0) = None"
proof -
  let ?n = "vcross (vsub (tri_b spec_triangle) (tri_a spec_triangle))
                   (vsub (tri_c spec_triangle) (tri_a spec_triangle))"
  let ?D = "dot (direction tri_ray) ?n"
  let ?q = "vsub (origin tri_ray) (tri_a spec_triangle)"
  let ?sign = "if jgt ?D (Num 0) then Num 1 else Num (- 1)"
  let ?X = "jmul ?sign (dot (direction tri_ray)
              (vcross ?q (vsub (tri_c spec_triangle) (tri_a spec_triangle))))"
  let ?Y = "jmul ?sign (dot (direction tri_ray)
              (vcross (vsub (tri_b spec_triangle) (tri_a spec_triangle)) ?q))"
  let ?Q = "jmul (jneg ?sign) (dot ?q ?n)"
  let ?A = "if jgt ?D (Num 0) then ?D else jneg ?D"
  have p1: "\<not> isnan ?D \<and> \<not> jzero ?D \<and> jgt ?D (Num 0)"
    by code_simp
  have p2: "\<not> (jlt ?X (Num 0) \<or> jlt ?Y (Num 0) \<or> jgt (jadd ?X ?Y) ?A \<or> jlt ?Q (Num 0))"
    by code_simp
  have p3: "at_ray tri_ray (jdiv ?Q ?A) (vec 9 9 9) = vec 0 (3 / 10) 0"
    by code_simp
  have p4: "jzero (dot (direction (ray_from (vec 0 0 (- 5)) (vec 1 0 0))) ?n)"
    by code_simp
  have "returned (intersectTriangle tri_ray spec_triangle False (vec 9 9 9) scratch0)
      = Some (at_ray tri_ray (jdiv ?Q ?A) (vec 9 9 9))"
    using intersectTriangle_accept_reject [of spec_triangle tri_ray False "vec 9 9 9" scratch0]
      p1 p2
    unfolding Let_def by blast
  moreover have "returned (intersectTriangle tri_ray spec_triangle True (vec 9 9 9) scratch0) = None"
    using intersectTriangle_accept_reject [of spec_triangle tri_ray True "vec 9 9 9" scratch0] p1
    unfolding Let_def by blast
  moreover have "returned (intersectTriangle (ray_from (vec 0 0 (- 5)) (vec 1 0 0)) spec_triangle
      False (vec 9 9 9) scratch0) = None"
    using intersectTriangle_accept_reject [of spec_triangle
        "ray_from (vec 0 0 (- 5)) (vec 1 0 0)" False "vec 9 9 9" scratch0] p4
    unfolding Let_def by blast
  ultimately show ?thesis
    by (simp only: p3 simp_thms)
qed

text \<open>
  Claim C9. What \<^verbatim>\<open>Ray.intersectTriangle\<close> returns depends on the ray, the triangle and
  the culling flag only, not on the contents of the module's working vectors nor on the
  previous contents of \<open>result\<close>; and a second call with the same arguments, run on the
  storage the first call left, returns what the first call returned.
\<close>

theorem intersectTriangle_deterministic:
  "returned (intersectTriangle r T cull result1 s1) = returned (intersectTriangle r T cull result2 s2)
   \<and> (let out1 = intersectTriangle r T cull result s;
          out2 = intersectTriangle r T cull (fst (snd out1)) (snd (snd out1))
      in fst out2 = fst out1 \<and> fst (snd out2) = fst (snd out1))"
proof -
  define out1 where "out1 = intersectTriangle r T cull result s"
  define out2 where "out2 = intersectTriangle r T cull (fst (snd out1)) (snd (snd out1))"
  have same: "returned out2 = returned out1"
    by (simp add: out1_def out2_def intersectTriangle_returned)
  have "fst out2 = fst out1 \<and> fst (snd out2) = fst (snd out1)"
  proof (cases "fst out1")
    case Null
    then have "fst out2 = Null"
      using same by (simp add: returned_None_iff [symmetric])
    then have "fst (snd out2) = fst (snd out1)"
      unfolding out2_def by (rule intersectTriangle_frame)
    with Null \<open>fst out2 = Null\<close> show ?thesis by simp
  next
    case ResultRef
    then have "returned out1 = Some (fst (snd out1))"
      by (simp add: returned_def)
    with same ResultRef show ?thesis
      by (simp add: returned_Some_iff)
  qed
  then show ?thesis
    by (simp add: intersectTriangle_returned out1_def out2_def Let_def)
qed

section \<open>Ray.intersectBoundingSphere\<close>

lemma intersectBoundingSphere_frame:
  "fst (intersectBoundingSphere r S result s) = Null \<Longrightarrow>
   fst (snd (intersectBoundingSphere r S result s)) = result"
  by (simp add: intersectBoundingSphere_def Let_def split: if_splits)


lemmas sphere_eval = unit_sphere_def ray_from_def vec_def vsub_def dot_def jadd_Num jsub_Num
  jmul_Num jgt_Num point_at_def vfin_def


section \<open>Ray.intersectAABB\<close>

subsection \<open>The code as a fold of slab intervals\<close>

lemma case_option_if:
  "(case (if c then x else y) of None \<Rightarrow> n | Some t \<Rightarrow> g t) =
   (if c then (case x of None \<Rightarrow> n | Some t \<Rightarrow> g t) else (case y of None \<Rightarrow> n | Some t \<Rightarrow> g t))"
  by simp

lemma intersectAABB_slabs:
  "intersectAABB r box result =
     (case aabb_hit_t r box of None \<Rightarrow> (Null, result) | Some t \<Rightarrow> (ResultRef, at_ray r t result))"
  unfolding intersectAABB_def aabb_hit_t_def slab_def slab_x_def slab_y_def slab_z_def
    interval_test_fails_def fold_interval_def Let_def split_def case_option_if option.case
    strict_ne_self fst_conv snd_conv
  by (rule refl)

lemma intersectAABB_Null_iff: "fst (intersectAABB r box p) = Null \<longleftrightarrow> aabb_hit_t r box = None"
  by (simp add: intersectAABB_slabs split: option.splits)

lemma intersectAABB_Ref_iff:
  "fst (intersectAABB r box p) = ResultRef \<longleftrightarrow> (\<exists>t. aabb_hit_t r box = Some t)"
  by (simp add: intersectAABB_slabs split: option.splits)

lemma aabb_hit_iff:
  "(\<exists>t. aabb_hit_t r box = Some t) =
     (\<not> interval_test_fails (slab_x r box) (slab_y r box)
      \<and> \<not> interval_test_fails (fold_interval (slab_x r box) (slab_y r box)) (slab_z r box)
      \<and> \<not> jlt (snd (fold_interval (fold_interval (slab_x r box) (slab_y r box)) (slab_z r box)))
            (Num 0))"
  by (simp add: aabb_hit_t_def Let_def)

lemma intersectAABB_frame:
  "fst (intersectAABB r box result) = Null \<Longrightarrow> snd (intersectAABB r box result) = result"
  by (simp add: intersectAABB_slabs split: option.splits)

text \<open>
  Claim C3. \<^verbatim>\<open>Ray.intersectAABB\<close> folds the three slab intervals of the ray against the
  box. It returns \<^verbatim>\<open>null\<close>, leaving \<open>result\<close> as it was, when one of the two pairwise
  interval tests fails or when the folded \<open>tmax\<close> is negative; otherwise it returns the
  point at the folded \<open>tmin\<close> when \<open>tmin \<ge> 0\<close>, and the point at the folded \<open>tmax\<close>
  when \<open>tmin < 0\<close>.
\<close>

theorem intersectAABB_slab_fold:
  "let X = slab_x r box; Y = slab_y r box; Z = slab_z r box;
       XY = fold_interval X Y;
       tmin = fst (fold_interval XY Z);
       tmax = snd (fold_interval XY Z);
       out = intersectAABB r box result
   in (interval_test_fails X Y \<or> interval_test_fails XY Z \<longrightarrow> out = (Null, result))
    \<and> (jlt tmax (Num 0) \<longrightarrow> out = (Null, result))
    \<and> (\<not> interval_test_fails X Y \<and> \<not> interval_test_fails XY Z \<and> \<not> jlt tmax (Num 0)
         \<and> jge tmin (Num 0) \<longrightarrow> out = (ResultRef, at_ray r tmin result))
    \<and> (\<not> interval_test_fails X Y \<and> \<not> interval_test_fails XY Z \<and> \<not> jlt tmax (Num 0)
         \<and> jlt tmin (Num 0) \<longrightarrow> out = (ResultRef, at_ray r tmax result))"
  by (auto simp add: intersectAABB_slabs aabb_hit_t_def Let_def dest: jlt_not_ge)

theorem intersectAABB_slab_fold_witness:
  "intersectAABB (ray_from (vec 0 0 (- 5)) (vec 0 0 1)) unit_box (vec 9 9 9)
     = (ResultRef, vec 0 0 (- 1))
   \<and> intersectAABB (ray_from (vec 0 0 0) (vec 0 0 1)) unit_box (vec 9 9 9)
     = (ResultRef, vec 0 0 1)
   \<and> intersectAABB (ray_from (vec 0 0 5) (vec 0 0 1)) unit_box (vec 9 9 9) = (Null, vec 9 9 9)
   \<and> intersectAABB (ray_from (vec 5 0 (- 5)) (vec 0 0 1)) unit_box (vec 9 9 9) = (Null, vec 9 9 9)"
proof -
  let ?r1 = "ray_from (vec 0 0 (- 5)) (vec 0 0 1)"
  let ?r2 = "ray_from (vec 0 0 0) (vec 0 0 1)"
  let ?r3 = "ray_from (vec 0 0 5) (vec 0 0 1)"
  let ?r4 = "ray_from (vec 5 0 (- 5)) (vec 0 0 1)"
  let ?XY = "\<lambda>r. fold_interval (slab_x r unit_box) (slab_y r unit_box)"
  let ?F = "\<lambda>r. fold_interval (?XY r) (slab_z r unit_box)"
  let ?ok = "\<lambda>r. \<not> interval_test_fails (slab_x r unit_box) (slab_y r unit_box)
       \<and> \<not> interval_test_fails (?XY r) (slab_z r unit_box) \<and> \<not> jlt (snd (?F r)) (Num 0)"
  have a1: "?ok ?r1 \<and> jge (fst (?F ?r1)) (Num 0)"
    by code_simp
  have e1: "at_ray ?r1 (fst (?F ?r1)) (vec 9 9 9) = vec 0 0 (- 1)"
    by code_simp
  have a2: "?ok ?r2 \<and> jlt (fst (?F ?r2)) (Num 0)"
    by code_simp
  have e2: "at_ray ?r2 (snd (?F ?r2)) (vec 9 9 9) = vec 0 0 1"
    by code_simp
  have a3: "jlt (snd (?F ?r3)) (Num 0)"
    by code_simp
  have a4: "interval_test_fails (?XY ?r4) (slab_z ?r4 unit_box)"
    by code_simp
  have "intersectAABB ?r1 unit_box (vec 9 9 9) = (ResultRef, at_ray ?r1 (fst (?F ?r1)) (vec 9 9 9))"
    using intersectAABB_slab_fold [of ?r1 unit_box "vec 9 9 9"] a1 unfolding Let_def by blast
  moreover have "intersectAABB ?r2 unit_box (vec 9 9 9)
      = (ResultRef, at_ray ?r2 (snd (?F ?r2)) (vec 9 9 9))"
    using intersectAABB_slab_fold [of ?r2 unit_box "vec 9 9 9"] a2 unfolding Let_def by blast
  moreover have "intersectAABB ?r3 unit_box (vec 9 9 9) = (Null, vec 9 9 9)"
    using intersectAABB_slab_fold [of ?r3 unit_box "vec 9 9 9"] a3 unfolding Let_def by blast
  moreover have "intersectAABB ?r4 unit_box (vec 9 9 9) = (Null, vec 9 9 9)"
    using intersectAABB_slab_fold [of ?r4 unit_box "vec 9 9 9"] a4 unfolding Let_def by blast
  ultimately show ?thesis
    by (simp only: e1 e2 simp_thms)
qed

subsection \<open>Zero direction components\<close>

lemma lower_ok_fin: "fin a \<Longrightarrow> lower_ok a t = (val a \<le> t)"
  by (cases a) simp_all

lemma upper_ok_fin: "fin b \<Longrightarrow> upper_ok b t = (t \<le> val b)"
  by (cases b) simp_all

lemma slab_cases:
  assumes "fin d"
  shows "slab lo hi p d =
     (if 0 < val d then
        (jmul (jsub lo p) (Num (1 / val d)), jmul (jsub hi p) (Num (1 / val d)))
      else if val d < 0 then
        (jmul (jsub hi p) (Num (1 / val d)), jmul (jsub lo p) (Num (1 / val d)))
      else if signbit d then (jmul (jsub hi p) NInf, jmul (jsub lo p) NInf)
      else (jmul (jsub lo p) PInf, jmul (jsub hi p) PInf))"
  using assms by (auto simp add: slab_def Let_def jdiv_one jge_zero_simps)

lemma slab_sound:
  assumes "fin lo" "fin hi" "fin p" "fin d"
  shows "(lower_ok (fst (slab lo hi p d)) t \<and> upper_ok (snd (slab lo hi p d)) t)
     = in_slab lo hi p d t"
proof -
  consider (pos) "0 < val d" | (neg) "val d < 0" | (nz) "val d = 0" "signbit d"
    | (pz) "val d = 0" "\<not> signbit d"
    by fastforce
  then show ?thesis
  proof cases
    case pos
    then show ?thesis
      using assms
      by (simp add: slab_cases lower_ok_fin upper_ok_fin in_slab_def field_simps)
  next
    case neg
    then show ?thesis
      using assms
      by (auto simp add: slab_cases lower_ok_fin upper_ok_fin in_slab_def field_simps)
  next
    case nz
    then show ?thesis
      using assms by (auto simp add: slab_cases jmul_NInf in_slab_def)
  next
    case pz
    then show ?thesis
      using assms by (auto simp add: slab_cases jmul_PInf in_slab_def)
  qed
qed

lemma slab_wf:
  assumes "fin lo" "fin hi" "fin p" "fin d" "val lo \<le> val hi"
  shows "\<not> jgt (fst (slab lo hi p d)) (snd (slab lo hi p d))"
proof -
  consider (pos) "0 < val d" | (neg) "val d < 0" | (nz) "val d = 0" "signbit d"
    | (pz) "val d = 0" "\<not> signbit d"
    by fastforce
  then show ?thesis
  proof cases
    case pos
    then show ?thesis
      using assms by (simp add: slab_cases field_simps)
  next
    case neg
    then show ?thesis
      using assms by (simp add: slab_cases field_simps)
  next
    case nz
    then show ?thesis
      using assms by (auto simp add: slab_cases jmul_NInf jgt_def)
  next
    case pz
    then show ?thesis
      using assms by (auto simp add: slab_cases jmul_PInf jgt_def)
  qed
qed

lemma slab_finite:
  assumes "fin lo" "fin hi" "fin p" "fin d" "val d \<noteq> 0"
  shows "fin (snd (slab lo hi p d))"
  using assms by (auto simp add: slab_cases)

lemma fold_lower:
  "lower_ok (fst (fold_interval I J)) t = (lower_ok (fst I) t \<and> lower_ok (fst J) t)"
  by (cases "fst I"; cases "fst J") (auto simp add: fold_interval_def jgt_def)

lemma fold_upper:
  "upper_ok (snd (fold_interval I J)) t = (upper_ok (snd I) t \<and> upper_ok (snd J) t)"
  by (cases "snd I"; cases "snd J") (auto simp add: fold_interval_def jgt_def)

lemma bounds_not_gt: "lower_ok a t \<Longrightarrow> upper_ok b t \<Longrightarrow> \<not> jgt a b"
  by (cases a; cases b) (auto simp add: jgt_def)

lemma fails_sound:
  assumes "lower_ok (fst I) t" "upper_ok (snd I) t" "lower_ok (fst J) t" "upper_ok (snd J) t"
  shows "\<not> interval_test_fails I J"
  using assms by (simp add: interval_test_fails_def bounds_not_gt)

lemma fold_wf:
  assumes "\<not> jgt (fst I) (snd I)" "\<not> jgt (fst J) (snd J)" "\<not> interval_test_fails I J"
  shows "\<not> jgt (fst (fold_interval I J)) (snd (fold_interval I J))"
  using assms by (auto simp add: fold_interval_def interval_test_fails_def)

lemma upper_not_negative: "upper_ok b t \<Longrightarrow> 0 \<le> t \<Longrightarrow> \<not> jlt b (Num 0)"
  by (cases b) auto

lemma upper_fin_bounded: "fin b \<Longrightarrow> \<exists>t. \<not> upper_ok b t"
  by (cases b) (auto intro: exI [of _ "val b + 1"])

lemma interval_point:
  assumes "\<not> jgt a b" "\<not> jlt b (Num 0)" "a \<noteq> PInf"
  shows "\<exists>t. 0 \<le> t \<and> lower_ok a t \<and> upper_ok b t"
proof (cases "fin a")
  case True
  then have "0 \<le> max 0 (val a) \<and> lower_ok a (max 0 (val a)) \<and> upper_ok b (max 0 (val a))"
    using assms by (cases a; cases b) (auto simp add: jgt_def)
  then show ?thesis by blast
next
  case False
  then have "0 \<le> (0::real) \<and> lower_ok a 0 \<and> upper_ok b 0"
    using assms by (cases a; cases b) (auto simp add: jgt_def)
  then show ?thesis by blast
qed

lemma not_gt_PInf: "\<not> jgt PInf b \<Longrightarrow> upper_ok b t"
  by (cases b) (simp_all add: jgt_def)


lemma hit_not_rejected:
  assumes "0 \<le> t"
    and "lower_ok (fst X) t" "upper_ok (snd X) t"
    and "lower_ok (fst Y) t" "upper_ok (snd Y) t"
    and "lower_ok (fst Z) t" "upper_ok (snd Z) t"
  shows "\<not> interval_test_fails X Y \<and> \<not> interval_test_fails (fold_interval X Y) Z
    \<and> \<not> jlt (snd (fold_interval (fold_interval X Y) Z)) (Num 0)"
proof -
  have a: "\<not> interval_test_fails X Y"
    using assms(2-5) by (rule fails_sound)
  have l: "lower_ok (fst (fold_interval X Y)) t"
    using assms(2,4) by (simp add: fold_lower)
  have u: "upper_ok (snd (fold_interval X Y)) t"
    using assms(3,5) by (simp add: fold_upper)
  have b: "\<not> interval_test_fails (fold_interval X Y) Z"
    using l u assms(6,7) by (rule fails_sound)
  have "upper_ok (snd (fold_interval (fold_interval X Y) Z)) t"
    using u assms(7) by (simp add: fold_upper)
  then have c: "\<not> jlt (snd (fold_interval (fold_interval X Y) Z)) (Num 0)"
    using assms(1) by (rule upper_not_negative)
  from a b c show ?thesis
    by (intro conjI)
qed

lemma not_rejected_hit:
  assumes "\<not> jgt (fst X) (snd X)" "\<not> jgt (fst Y) (snd Y)" "\<not> jgt (fst Z) (snd Z)"
    and "fin (snd X) \<or> fin (snd Y) \<or> fin (snd Z)"
    and "\<not> interval_test_fails X Y" "\<not> interval_test_fails (fold_interval X Y) Z"
    and "\<not> jlt (snd (fold_interval (fold_interval X Y) Z)) (Num 0)"
  shows "\<exists>t. 0 \<le> t \<and> (lower_ok (fst X) t \<and> upper_ok (snd X) t)
    \<and> (lower_ok (fst Y) t \<and> upper_ok (snd Y) t) \<and> (lower_ok (fst Z) t \<and> upper_ok (snd Z) t)"
proof -
  define F where "F = fold_interval (fold_interval X Y) Z"
  have wxy: "\<not> jgt (fst (fold_interval X Y)) (snd (fold_interval X Y))"
    using assms(1,2,5) by (rule fold_wf)
  have wf: "\<not> jgt (fst F) (snd F)"
    unfolding F_def using wxy assms(3,6) by (rule fold_wf)
  have up: "upper_ok (snd F) t = (upper_ok (snd X) t \<and> upper_ok (snd Y) t \<and> upper_ok (snd Z) t)"
    for t
    by (simp add: F_def fold_upper)
  have lo: "lower_ok (fst F) t = (lower_ok (fst X) t \<and> lower_ok (fst Y) t \<and> lower_ok (fst Z) t)"
    for t
    by (simp add: F_def fold_lower)
  obtain t0 where t0: "\<not> (upper_ok (snd X) t0 \<and> upper_ok (snd Y) t0 \<and> upper_ok (snd Z) t0)"
    using assms(4) upper_fin_bounded by blast
  have "fst F \<noteq> PInf"
  proof
    assume "fst F = PInf"
    with wf have "\<not> jgt PInf (snd F)"
      by simp
    then have "upper_ok (snd F) t0"
      by (rule not_gt_PInf)
    with t0 show False
      by (simp add: up)
  qed
  with wf assms(7) obtain t where "0 \<le> t" "lower_ok (fst F) t" "upper_ok (snd F) t"
    unfolding F_def [symmetric] using interval_point by blast
  then show ?thesis
    by (auto simp add: up lo)
qed

lemma intersectAABB_hits_iff:
  assumes "vfin (origin r)" and "vfin (direction r)" and "valid_box box"
    and "val (vx (direction r)) \<noteq> 0 \<or> val (vy (direction r)) \<noteq> 0 \<or> val (vz (direction r)) \<noteq> 0"
  shows "(fst (intersectAABB r box result) = ResultRef) = ray_hits_box r box"
proof -
  define X where "X = slab_x r box"
  define Y where "Y = slab_y r box"
  define Z where "Z = slab_z r box"
  let ?inx = "in_slab (vx (aabb_min box)) (vx (aabb_max box)) (vx (origin r)) (vx (direction r))"
  let ?iny = "in_slab (vy (aabb_min box)) (vy (aabb_max box)) (vy (origin r)) (vy (direction r))"
  let ?inz = "in_slab (vz (aabb_min box)) (vz (aabb_max box)) (vz (origin r)) (vz (direction r))"
  have fo: "fin (vx (origin r))" "fin (vy (origin r))" "fin (vz (origin r))"
    and fd: "fin (vx (direction r))" "fin (vy (direction r))" "fin (vz (direction r))"
    using assms(1,2) by (simp_all add: vfin_def)
  have fb: "fin (vx (aabb_min box))" "fin (vy (aabb_min box))" "fin (vz (aabb_min box))"
      "fin (vx (aabb_max box))" "fin (vy (aabb_max box))" "fin (vz (aabb_max box))"
    and le: "val (vx (aabb_min box)) \<le> val (vx (aabb_max box))"
      "val (vy (aabb_min box)) \<le> val (vy (aabb_max box))"
      "val (vz (aabb_min box)) \<le> val (vz (aabb_max box))"
    using assms(3) by (simp_all add: valid_box_def vfin_def)
  have sx: "(lower_ok (fst X) t \<and> upper_ok (snd X) t) = ?inx t" for t
    unfolding X_def slab_x_def using fb fo fd by (intro slab_sound)
  have sy: "(lower_ok (fst Y) t \<and> upper_ok (snd Y) t) = ?iny t" for t
    unfolding Y_def slab_y_def using fb fo fd by (intro slab_sound)
  have sz: "(lower_ok (fst Z) t \<and> upper_ok (snd Z) t) = ?inz t" for t
    unfolding Z_def slab_z_def using fb fo fd by (intro slab_sound)
  have wx: "\<not> jgt (fst X) (snd X)"
    unfolding X_def slab_x_def using fb fo fd le by (intro slab_wf)
  have wy: "\<not> jgt (fst Y) (snd Y)"
    unfolding Y_def slab_y_def using fb fo fd le by (intro slab_wf)
  have wz: "\<not> jgt (fst Z) (snd Z)"
    unfolding Z_def slab_z_def using fb fo fd le by (intro slab_wf)
  have some_fin: "fin (snd X) \<or> fin (snd Y) \<or> fin (snd Z)"
    unfolding X_def Y_def Z_def slab_x_def slab_y_def slab_z_def
    using assms(4) fb fo fd slab_finite by blast
  have hits: "ray_hits_box r box =
      (\<exists>t. 0 \<le> t \<and> (lower_ok (fst X) t \<and> upper_ok (snd X) t)
        \<and> (lower_ok (fst Y) t \<and> upper_ok (snd Y) t) \<and> (lower_ok (fst Z) t \<and> upper_ok (snd Z) t))"
    by (simp only: ray_hits_box_def sx sy sz)
  have code: "(fst (intersectAABB r box result) = ResultRef) =
      (\<not> interval_test_fails X Y \<and> \<not> interval_test_fails (fold_interval X Y) Z
       \<and> \<not> jlt (snd (fold_interval (fold_interval X Y) Z)) (Num 0))"
    by (simp only: intersectAABB_Ref_iff aabb_hit_iff X_def Y_def Z_def)
  show ?thesis
    unfolding code hits
    using not_rejected_hit [OF wx wy wz some_fin] hit_not_rejected [of _ X Y Z]
    by blast
qed




section \<open>A hit triangle inside a box\<close>

text \<open>
  The point that the triangle test accepts is \<open>a + u (b - a) + v (c - a)\<close> with
  \<open>u, v \<ge> 0\<close> and \<open>u + v \<le> 1\<close>, at a parameter \<open>t \<ge> 0\<close> of the ray: a point of the
  triangle. So a finite ray that hits a triangle whose corners lie in a valid box meets
  the box, and the box test accepts it.
\<close>

lemma triangle_hit_barycentric:
  assumes fr: "vfin (origin r)" "vfin (direction r)"
    and fT: "vfin (tri_a T)" "vfin (tri_b T)" "vfin (tri_c T)"
    and hit: "triangle_hit r T cull = Some p"
  shows "\<exists>t u v. 0 \<le> t \<and> 0 \<le> u \<and> 0 \<le> v \<and> u + v \<le> 1
    \<and> val (vx (origin r)) + t * val (vx (direction r))
        = val (vx (tri_a T)) + u * (val (vx (tri_b T)) - val (vx (tri_a T)))
          + v * (val (vx (tri_c T)) - val (vx (tri_a T)))
    \<and> val (vy (origin r)) + t * val (vy (direction r))
        = val (vy (tri_a T)) + u * (val (vy (tri_b T)) - val (vy (tri_a T)))
          + v * (val (vy (tri_c T)) - val (vy (tri_a T)))
    \<and> val (vz (origin r)) + t * val (vz (direction r))
        = val (vz (tri_a T)) + u * (val (vz (tri_b T)) - val (vz (tri_a T)))
          + v * (val (vz (tri_c T)) - val (vz (tri_a T)))"
proof -
  define e1 where "e1 = vsub (tri_b T) (tri_a T)"
  define e2 where "e2 = vsub (tri_c T) (tri_a T)"
  define n where "n = vcross e1 e2"
  define q where "q = vsub (origin r) (tri_a T)"
  define D0 where "D0 = val (dot (direction r) n)"
  define X0 where "X0 = val (dot (direction r) (vcross q e2))"
  define Y0 where "Y0 = val (dot (direction r) (vcross e1 q))"
  define Q0 where "Q0 = val (dot q n)"
  have fin: "vfin e1" "vfin e2" "vfin n" "vfin q"
    using fr fT by (simp_all add: e1_def e2_def n_def q_def vfin_vcross)
  have fd: "fin (dot (direction r) n)" "fin (dot (direction r) (vcross q e2))"
    "fin (dot (direction r) (vcross e1 q))" "fin (dot q n)"
    using fr fin by (simp_all add: vfin_vcross)
  obtain s :: real where s: "s = 1 \<or> s = - 1" and pos: "0 < s * D0"
    and cond: "0 \<le> s * X0" "0 \<le> s * Y0" "s * X0 + s * Y0 \<le> s * D0" "0 \<le> - s * Q0"
  proof (cases "jgt (dot (direction r) n) (Num 0)")
    case True
    with hit fd have "0 < 1 * D0 \<and> 0 \<le> 1 * X0 \<and> 0 \<le> 1 * Y0 \<and> 1 * X0 + 1 * Y0 \<le> 1 * D0
        \<and> 0 \<le> - 1 * Q0"
      unfolding triangle_hit_def Let_def e1_def [symmetric] e2_def [symmetric] n_def [symmetric]
        q_def [symmetric]
      by (simp add: D0_def X0_def Y0_def Q0_def jzero_fin split: if_splits)
    then show ?thesis
      using that [of 1] by blast
  next
    case False
    with hit fd have "0 < - 1 * D0 \<and> 0 \<le> - 1 * X0 \<and> 0 \<le> - 1 * Y0
        \<and> - 1 * X0 + - 1 * Y0 \<le> - 1 * D0 \<and> 0 \<le> - (- 1) * Q0"
      unfolding triangle_hit_def Let_def e1_def [symmetric] e2_def [symmetric] n_def [symmetric]
        q_def [symmetric]
      by (simp add: D0_def X0_def Y0_def Q0_def jzero_fin split: if_splits)
    then show ?thesis
      using that [of "- 1"] by blast
  qed
  have vq: "val (vx q) = val (vx (origin r)) - val (vx (tri_a T))"
    "val (vy q) = val (vy (origin r)) - val (vy (tri_a T))"
    "val (vz q) = val (vz (origin r)) - val (vz (tri_a T))"
    and ve1: "val (vx e1) = val (vx (tri_b T)) - val (vx (tri_a T))"
    "val (vy e1) = val (vy (tri_b T)) - val (vy (tri_a T))"
    "val (vz e1) = val (vz (tri_b T)) - val (vz (tri_a T))"
    and ve2: "val (vx e2) = val (vx (tri_c T)) - val (vx (tri_a T))"
    "val (vy e2) = val (vy (tri_c T)) - val (vy (tri_a T))"
    "val (vz e2) = val (vz (tri_c T)) - val (vz (tri_a T))"
    using fr fT by (simp_all add: q_def e1_def e2_def vfin_def vsub_sel)
  have fc: "fin (vx q)" "fin (vy q)" "fin (vz q)" "fin (vx e1)" "fin (vy e1)" "fin (vz e1)"
    "fin (vx e2)" "fin (vy e2)" "fin (vz e2)"
    "fin (vx (direction r))" "fin (vy (direction r))" "fin (vz (direction r))"
    using fin fr by (simp_all add: vfin_def)
  have D0: "D0 = val (vx (direction r)) * (val (vy e1) * val (vz e2) - val (vz e1) * val (vy e2))
      + val (vy (direction r)) * (val (vz e1) * val (vx e2) - val (vx e1) * val (vz e2))
      + val (vz (direction r)) * (val (vx e1) * val (vy e2) - val (vy e1) * val (vx e2))"
    using fc by (simp add: D0_def n_def dot_def vcross_sel)
  have X0: "X0 = val (vx (direction r)) * (val (vy q) * val (vz e2) - val (vz q) * val (vy e2))
      + val (vy (direction r)) * (val (vz q) * val (vx e2) - val (vx q) * val (vz e2))
      + val (vz (direction r)) * (val (vx q) * val (vy e2) - val (vy q) * val (vx e2))"
    using fc by (simp add: X0_def dot_def vcross_sel)
  have Y0: "Y0 = val (vx (direction r)) * (val (vy e1) * val (vz q) - val (vz e1) * val (vy q))
      + val (vy (direction r)) * (val (vz e1) * val (vx q) - val (vx e1) * val (vz q))
      + val (vz (direction r)) * (val (vx e1) * val (vy q) - val (vy e1) * val (vx q))"
    using fc by (simp add: Y0_def dot_def vcross_sel)
  have Q0: "Q0 = val (vx q) * (val (vy e1) * val (vz e2) - val (vz e1) * val (vy e2))
      + val (vy q) * (val (vz e1) * val (vx e2) - val (vx e1) * val (vz e2))
      + val (vz q) * (val (vx e1) * val (vy e2) - val (vy e1) * val (vx e2))"
    using fc by (simp add: Q0_def n_def dot_def vcross_sel)
  have id: "D0 * val (vx q) - Q0 * val (vx (direction r)) = X0 * val (vx e1) + Y0 * val (vx e2)"
    "D0 * val (vy q) - Q0 * val (vy (direction r)) = X0 * val (vy e1) + Y0 * val (vy e2)"
    "D0 * val (vz q) - Q0 * val (vz (direction r)) = X0 * val (vz e1) + Y0 * val (vz e2)"
    unfolding D0 X0 Y0 Q0 by algebra+
  define D where "D = s * D0"
  define X where "X = s * X0"
  define Y where "Y = s * Y0"
  define Q where "Q = - s * Q0"
  have D: "0 < D" and XY: "0 \<le> X" "0 \<le> Y" "X + Y \<le> D" and Q: "0 \<le> Q"
    using pos cond by (simp_all add: D_def X_def Y_def Q_def)
  define t where "t = Q / D"
  define u where "u = X / D"
  define v where "v = Y / D"
  have sid: "D * val (vx q) + Q * val (vx (direction r)) = X * val (vx e1) + Y * val (vx e2)"
    "D * val (vy q) + Q * val (vy (direction r)) = X * val (vy e1) + Y * val (vy e2)"
    "D * val (vz q) + Q * val (vz (direction r)) = X * val (vz e1) + Y * val (vz e2)"
    unfolding D_def X_def Y_def Q_def using id by algebra+
  have eq: "val (vx q) + t * val (vx (direction r)) = u * val (vx e1) + v * val (vx e2)"
    "val (vy q) + t * val (vy (direction r)) = u * val (vy e1) + v * val (vy e2)"
    "val (vz q) + t * val (vz (direction r)) = u * val (vz e1) + v * val (vz e2)"
    unfolding t_def u_def v_def
    by (rule scaled_component [OF D sid(1)], rule scaled_component [OF D sid(2)],
        rule scaled_component [OF D sid(3)])
  have "0 \<le> t" "0 \<le> u" "0 \<le> v"
    using D XY Q by (simp_all add: t_def u_def v_def)
  moreover have "u + v \<le> 1"
  proof -
    have "u + v = (X + Y) / D"
      by (simp add: u_def v_def add_divide_distrib)
    then show ?thesis
      using D XY(3) by simp
  qed
  moreover have "val (vx (origin r)) + t * val (vx (direction r))
        = val (vx (tri_a T)) + u * (val (vx (tri_b T)) - val (vx (tri_a T)))
          + v * (val (vx (tri_c T)) - val (vx (tri_a T)))"
    using eq(1) by (simp add: vq ve1 ve2)
  moreover have "val (vy (origin r)) + t * val (vy (direction r))
        = val (vy (tri_a T)) + u * (val (vy (tri_b T)) - val (vy (tri_a T)))
          + v * (val (vy (tri_c T)) - val (vy (tri_a T)))"
    using eq(2) by (simp add: vq ve1 ve2)
  moreover have "val (vz (origin r)) + t * val (vz (direction r))
        = val (vz (tri_a T)) + u * (val (vz (tri_b T)) - val (vz (tri_a T)))
          + v * (val (vz (tri_c T)) - val (vz (tri_a T)))"
    using eq(3) by (simp add: vq ve1 ve2)
  ultimately show ?thesis
    by blast
qed

lemma triangle_hit_direction:
  assumes "vfin (origin r)" "vfin (direction r)"
    and "vfin (tri_a T)" "vfin (tri_b T)" "vfin (tri_c T)"
    and "triangle_hit r T cull = Some p"
  shows "val (vx (direction r)) \<noteq> 0 \<or> val (vy (direction r)) \<noteq> 0 \<or> val (vz (direction r)) \<noteq> 0"
proof -
  define n where "n = vcross (vsub (tri_b T) (tri_a T)) (vsub (tri_c T) (tri_a T))"
  have fn: "vfin n"
    using assms(3-5) by (simp add: n_def vfin_vcross)
  have "\<not> jzero (dot (direction r) n)"
    using assms(6) unfolding triangle_hit_def Let_def n_def [symmetric]
    by (simp split: if_splits)
  then have "val (dot (direction r) n) \<noteq> 0"
    using assms(2) fn by (simp add: jzero_fin)
  then show ?thesis
    using assms(2) fn by (auto simp add: val_dot)
qed

lemma triangle_hit_in_box:
  assumes fr: "vfin (origin r)" "vfin (direction r)"
    and box: "box_contains box (tri_a T)" "box_contains box (tri_b T)" "box_contains box (tri_c T)"
    and hit: "triangle_hit r T cull = Some p"
  shows "ray_hits_box r box"
proof -
  have fT: "vfin (tri_a T)" "vfin (tri_b T)" "vfin (tri_c T)"
    using box by (simp_all add: box_contains_def)
  obtain t u v where t: "0 \<le> t" and uv: "0 \<le> u" "0 \<le> v" "u + v \<le> 1"
    and ex: "val (vx (origin r)) + t * val (vx (direction r))
        = val (vx (tri_a T)) + u * (val (vx (tri_b T)) - val (vx (tri_a T)))
          + v * (val (vx (tri_c T)) - val (vx (tri_a T)))"
    and ey: "val (vy (origin r)) + t * val (vy (direction r))
        = val (vy (tri_a T)) + u * (val (vy (tri_b T)) - val (vy (tri_a T)))
          + v * (val (vy (tri_c T)) - val (vy (tri_a T)))"
    and ez: "val (vz (origin r)) + t * val (vz (direction r))
        = val (vz (tri_a T)) + u * (val (vz (tri_b T)) - val (vz (tri_a T)))
          + v * (val (vz (tri_c T)) - val (vz (tri_a T)))"
    using triangle_hit_barycentric [OF fr fT hit] by blast
  have "in_slab (vx (aabb_min box)) (vx (aabb_max box)) (vx (origin r)) (vx (direction r)) t"
    unfolding in_slab_def ex
    using box uv by (simp add: box_contains_def convex_lower convex_upper)
  moreover
  have "in_slab (vy (aabb_min box)) (vy (aabb_max box)) (vy (origin r)) (vy (direction r)) t"
    unfolding in_slab_def ey
    using box uv by (simp add: box_contains_def convex_lower convex_upper)
  moreover
  have "in_slab (vz (aabb_min box)) (vz (aabb_max box)) (vz (origin r)) (vz (direction r)) t"
    unfolding in_slab_def ez
    using box uv by (simp add: box_contains_def convex_lower convex_upper)
  ultimately show ?thesis
    using t unfolding ray_hits_box_def by blast
qed

lemma enclosed_hit_passes_box_test:
  assumes "vfin (origin r)" "vfin (direction r)" "valid_box box"
    and "box_contains box (tri_a T)" "box_contains box (tri_b T)" "box_contains box (tri_c T)"
    and "triangle_hit r T cull = Some p"
  shows "fst (intersectAABB r box result) = ResultRef"
proof -
  have fT: "vfin (tri_a T)" "vfin (tri_b T)" "vfin (tri_c T)"
    using assms(4-6) by (simp_all add: box_contains_def)
  have "ray_hits_box r box"
    using assms(1,2,4-7) by (rule triangle_hit_in_box)
  then show ?thesis
    using intersectAABB_hits_iff [OF assms(1-3) triangle_hit_direction [OF assms(1,2) fT assms(7)]]
    by simp
qed

section \<open>Obstacle.intersectRay\<close>

subsection \<open>The two loops scan the decoded triangles\<close>

lemma load_triangle_pure:
  "load_triangle xf m t vs ia ib ic =
     transform_triangle xf m \<lparr>tri_a = vertex_at vs ia, tri_b = vertex_at vs ib, tri_c = vertex_at vs ic\<rparr>"
  by (simp add: load_triangle_def Let_def vertex_at_def transform_triangle_def)

lemma nonindexed_loop_scan:
  "nonindexed_loop xf ob ray (9 * k) result s =
     scan ray (backfaceCulling (geometry ob))
       (map (\<lambda>j. transform_triangle xf (worldMatrix ob)
                   (nonindexed_triangle (vertices (geometry ob)) j))
          [k..<(length (vertices (geometry ob)) + 8) div 9])
       result s"
proof (induction "(length (vertices (geometry ob)) + 8) div 9 - k" arbitrary: k result s)
  case 0
  then have "\<not> 9 * k < length (vertices (geometry ob))"
    by linarith
  moreover have "[k..<(length (vertices (geometry ob)) + 8) div 9] = []"
    using 0 by simp
  ultimately show ?case
    by (subst nonindexed_loop.simps) simp
next
  case (Suc d)
  then have lt: "k < (length (vertices (geometry ob)) + 8) div 9"
    by linarith
  then have i: "9 * k < length (vertices (geometry ob))"
    by linarith
  have upt: "[k..<(length (vertices (geometry ob)) + 8) div 9]
      = k # [Suc k..<(length (vertices (geometry ob)) + 8) div 9]"
    using lt by (simp add: upt_conv_Cons)
  have d: "d = (length (vertices (geometry ob)) + 8) div 9 - Suc k"
    using Suc(2) by linarith
  have nxt: "9 * k + 9 = 9 * Suc k"
    by simp
  show ?case
    by (subst nonindexed_loop.simps)
      (simp only: i if_True upt list.map scan.simps Let_def load_triangle_pure
        nonindexed_triangle_def [symmetric] nxt Suc(1) [OF d])
qed

lemma indexed_loop_scan:
  "indexed_loop xf ob ixs ray (3 * k) result s =
     scan ray (backfaceCulling (geometry ob))
       (map (\<lambda>j. transform_triangle xf (worldMatrix ob)
                   (indexed_triangle (vertices (geometry ob)) ixs j))
          [k..<(length ixs + 2) div 3])
       result s"
proof (induction "(length ixs + 2) div 3 - k" arbitrary: k result s)
  case 0
  then have "\<not> 3 * k < length ixs"
    by linarith
  moreover have "[k..<(length ixs + 2) div 3] = []"
    using 0 by simp
  ultimately show ?case
    by (subst indexed_loop.simps) simp
next
  case (Suc d)
  then have lt: "k < (length ixs + 2) div 3"
    by linarith
  then have i: "3 * k < length ixs"
    by linarith
  have upt: "[k..<(length ixs + 2) div 3] = k # [Suc k..<(length ixs + 2) div 3]"
    using lt by (simp add: upt_conv_Cons)
  have d: "d = (length ixs + 2) div 3 - Suc k"
    using Suc(2) by linarith
  have nxt: "3 * k + 3 = 3 * Suc k"
    by simp
  show ?case
    by (subst indexed_loop.simps)
      (simp only: i if_True upt list.map scan.simps Let_def load_triangle_pure
        indexed_triangle_def [symmetric] nxt Suc(1) [OF d])
qed

lemma scan_returned: "returned (scan ray cull Ts result s) = first_hit ray cull Ts"
proof (induction Ts arbitrary: result s)
  case Nil
  show ?case by simp
next
  case (Cons T Ts)
  obtain r result' s2 where
    out: "intersectTriangle ray T cull result (s\<lparr>triangle_tmp := T\<rparr>) = (r, result', s2)"
    by (cases "intersectTriangle ray T cull result (s\<lparr>triangle_tmp := T\<rparr>)")
  have hit: "triangle_hit ray T cull = returned (r, result', s2)"
    using intersectTriangle_returned [of ray T cull result "s\<lparr>triangle_tmp := T\<rparr>"] out
    by simp
  show ?case
  proof (cases r)
    case Null
    then show ?thesis
      using out hit Cons.IH by (simp add: Let_def)
  next
    case ResultRef
    then show ?thesis
      using out hit by (simp add: Let_def)
  qed
qed

lemma scan_frame:
  "fst (scan ray cull Ts result s) = Null \<Longrightarrow> fst (snd (scan ray cull Ts result s)) = result"
proof (induction Ts arbitrary: result s)
  case Nil
  show ?case by simp
next
  case (Cons T Ts)
  obtain r result' s2 where
    out: "intersectTriangle ray T cull result (s\<lparr>triangle_tmp := T\<rparr>) = (r, result', s2)"
    by (cases "intersectTriangle ray T cull result (s\<lparr>triangle_tmp := T\<rparr>)")
  show ?case
  proof (cases r)
    case Null
    then have "result' = result"
      using intersectTriangle_frame [of ray T cull result "s\<lparr>triangle_tmp := T\<rparr>"] out
      by simp
    with Null out Cons show ?thesis
      by (simp add: Let_def)
  next
    case ResultRef
    with out Cons.prems show ?thesis
      by (simp add: Let_def)
  qed
qed

lemma scan_stops:
  assumes "k < length Ts" and "triangle_hit ray (Ts ! k) cull = Some p"
    and "\<forall>j<k. triangle_hit ray (Ts ! j) cull = None"
  shows "fst (scan ray cull Ts result s) = ResultRef
    \<and> fst (snd (scan ray cull Ts result s)) = p
    \<and> triangle_tmp (snd (snd (scan ray cull Ts result s))) = Ts ! k"
  using assms
proof (induction Ts arbitrary: k result s)
  case Nil
  then show ?case by simp
next
  case (Cons T Ts)
  obtain r result' s2 where
    out: "intersectTriangle ray T cull result (s\<lparr>triangle_tmp := T\<rparr>) = (r, result', s2)"
    by (cases "intersectTriangle ray T cull result (s\<lparr>triangle_tmp := T\<rparr>)")
  have hit: "triangle_hit ray T cull = returned (r, result', s2)"
    using intersectTriangle_returned [of ray T cull result "s\<lparr>triangle_tmp := T\<rparr>"] out
    by simp
  have keep: "triangle_tmp s2 = T"
    using intersectTriangle_keeps_triangle [of ray T cull result "s\<lparr>triangle_tmp := T\<rparr>"] out
    by simp
  show ?case
  proof (cases k)
    case 0
    then have "returned (r, result', s2) = Some p"
      using Cons.prems(2) hit by simp
    then have "r = ResultRef \<and> result' = p"
      by (simp add: returned_Some_iff)
    then show ?thesis
      using out keep 0 by (simp add: Let_def)
  next
    case (Suc k')
    then have "triangle_hit ray T cull = None"
      using Cons.prems(3) by auto
    then have r: "r = Null"
      using hit by (simp add: returned_None_iff)
    have "k' < length Ts" "triangle_hit ray (Ts ! k') cull = Some p"
      "\<forall>j<k'. triangle_hit ray (Ts ! j) cull = None"
      using Cons.prems Suc by auto
    from Cons.IH [OF this, of result' s2] show ?thesis
      using out r Suc by (simp add: Let_def)
  qed
qed

lemma intersectRay_scan:
  "intersectRay xf xfb ob ray result s =
     (case aabb_hit_t ray (world_aabb xfb ob) of
        None \<Rightarrow> (Null, result, s\<lparr>aabb_tmp := world_aabb xfb ob\<rparr>)
      | Some t \<Rightarrow>
          scan ray (backfaceCulling (geometry ob)) (world_triangles xf ob) result
            (s\<lparr>aabb_tmp := world_aabb xfb ob, intersectionPointAABB := point_at ray t\<rparr>))"
proof -
  have a: "nonindexed_loop xf ob ray 0 result s' =
      scan ray (backfaceCulling (geometry ob))
        (map (transform_triangle xf (worldMatrix ob)) (nonindexed_triangles (vertices (geometry ob))))
        result s'" for s'
    using nonindexed_loop_scan [of xf ob ray 0 result s']
    by (simp add: nonindexed_triangles_def comp_def)
  have b: "indexed_loop xf ob ixs ray 0 result s' =
      scan ray (backfaceCulling (geometry ob))
        (map (transform_triangle xf (worldMatrix ob)) (indexed_triangles (vertices (geometry ob)) ixs))
        result s'" for s' ixs
    using indexed_loop_scan [of xf ob ixs ray 0 result s']
    by (simp add: indexed_triangles_def comp_def)
  show ?thesis
    by (simp add: intersectRay_def intersectAABB_slabs world_aabb_def world_triangles_def a b
          Let_def split: option.splits)
qed

lemma world_aabb_buffers:
  "world_aabb xfb (ob\<lparr>geometry := (geometry ob)\<lparr>vertices := vs, indices := ixs,
      backfaceCulling := c\<rparr>\<rparr>) = world_aabb xfb ob"
  by (simp add: world_aabb_def)

subsection \<open>Broad phase, decoding and first hit\<close>

text \<open>
  Claim C5. When the ray misses the world-space bounding box of the obstacle (the box of
  the geometry under the world matrix), \<^verbatim>\<open>Obstacle.intersectRay\<close> returns \<^verbatim>\<open>null\<close> and
  leaves \<open>result\<close>, the working triangle and the working vectors of the triangle test as
  they were: only the working box is written. The outcome is the same for every other
  vertex buffer, index buffer and culling flag, so the triangles are never looked at.
\<close>

theorem intersectRay_broad_phase_miss:
  assumes "fst (intersectAABB ray (world_aabb xfb ob) (intersectionPointAABB s)) = Null"
  shows "intersectRay xf xfb ob ray result s = (Null, result, s\<lparr>aabb_tmp := world_aabb xfb ob\<rparr>)
    \<and> intersectRay xf xfb
        (ob\<lparr>geometry := (geometry ob)\<lparr>vertices := vs, indices := ixs, backfaceCulling := c\<rparr>\<rparr>)
        ray result s = intersectRay xf xfb ob ray result s"
  using assms
  by (simp add: intersectRay_scan intersectAABB_Null_iff world_aabb_buffers)

theorem intersectRay_broad_phase_miss_witness:
  "fst (intersectAABB (ray_from (vec 5 5 (- 5)) (vec 0 0 1))
          (world_aabb identity_xfb malformed_obstacle) (intersectionPointAABB scratch0)) = Null
   \<and> intersectRay identity_xf identity_xfb malformed_obstacle
        (ray_from (vec 5 5 (- 5)) (vec 0 0 1)) (vec 9 9 9) scratch0
     = (Null, vec 9 9 9, scratch0\<lparr>aabb_tmp := world_aabb identity_xfb malformed_obstacle\<rparr>)"
proof -
  have h: "fst (intersectAABB (ray_from (vec 5 5 (- 5)) (vec 0 0 1))
          (world_aabb identity_xfb malformed_obstacle) (intersectionPointAABB scratch0)) = Null"
    by code_simp
  show ?thesis
    using intersectRay_broad_phase_miss [OF h, of identity_xf "vec 9 9 9"] h
    by blast
qed

text \<open>
  Claim C6. Once the broad phase has passed, \<^verbatim>\<open>Obstacle.intersectRay\<close> returns the first
  hit, in list order, among the triangles decoded from the geometry. The decoding is the
  non-indexed one exactly when \<^verbatim>\<open>indices\<close> is \<^verbatim>\<open>null\<close>: the consecutive groups of nine
  coordinates of the vertex buffer. Otherwise the indices are taken three at a time, and
  the index \<open>i\<close> names the coordinates \<open>3i\<close>, \<open>3i + 1\<close> and \<open>3i + 2\<close>. In both cases every
  corner is transformed by the world matrix before the triangle is tested, and the
  triangles keep the order of the buffer.
\<close>

theorem intersectRay_decoding:
  "returned (intersectRay xf xfb ob ray result s) =
     (if fst (intersectAABB ray (world_aabb xfb ob) (intersectionPointAABB s)) = Null then None
      else first_hit ray (backfaceCulling (geometry ob))
             (map (transform_triangle xf (worldMatrix ob))
                (case indices (geometry ob) of
                   None \<Rightarrow> nonindexed_triangles (vertices (geometry ob))
                 | Some ixs \<Rightarrow> indexed_triangles (vertices (geometry ob)) ixs)))"
  by (cases "aabb_hit_t ray (world_aabb xfb ob)")
    (simp_all add: intersectRay_scan intersectAABB_slabs scan_returned world_triangles_def)

theorem intersectRay_decoding_witness:
  "returned (intersectRay identity_xf identity_xfb indexed_obstacle tri_ray (vec 9 9 9) scratch0)
     = Some (vec 0 (3 / 10) 0)
   \<and> returned (intersectRay identity_xf identity_xfb two_layer_obstacle tri_ray (vec 9 9 9) scratch0)
     = Some (vec 0 (3 / 10) 2)"
proof -
  have h1: "fst (intersectAABB tri_ray (world_aabb identity_xfb indexed_obstacle)
      (intersectionPointAABB scratch0)) \<noteq> Null"
    by code_simp
  have h2: "fst (intersectAABB tri_ray (world_aabb identity_xfb two_layer_obstacle)
      (intersectionPointAABB scratch0)) \<noteq> Null"
    by code_simp
  have e1: "first_hit tri_ray (backfaceCulling (geometry indexed_obstacle))
       (map (transform_triangle identity_xf (worldMatrix indexed_obstacle))
          (case indices (geometry indexed_obstacle) of
             None \<Rightarrow> nonindexed_triangles (vertices (geometry indexed_obstacle))
           | Some ixs \<Rightarrow> indexed_triangles (vertices (geometry indexed_obstacle)) ixs))
      = Some (vec 0 (3 / 10) 0)"
    by code_simp
  have e2: "first_hit tri_ray (backfaceCulling (geometry two_layer_obstacle))
       (map (transform_triangle identity_xf (worldMatrix two_layer_obstacle))
          (case indices (geometry two_layer_obstacle) of
             None \<Rightarrow> nonindexed_triangles (vertices (geometry two_layer_obstacle))
           | Some ixs \<Rightarrow> indexed_triangles (vertices (geometry two_layer_obstacle)) ixs))
      = Some (vec 0 (3 / 10) 2)"
    by code_simp
  show ?thesis
    using intersectRay_decoding [of identity_xf identity_xfb indexed_obstacle tri_ray
        "vec 9 9 9" scratch0]
      intersectRay_decoding [of identity_xf identity_xfb two_layer_obstacle tri_ray
        "vec 9 9 9" scratch0]
    by (simp only: h1 h2 e1 e2 if_False simp_thms)
qed

text \<open>
  A scan that passes the broad phase ends at the first triangle that is hit. The broad
  phase is passed whenever the ray is finite and the world-space box is valid and holds
  the corners of that triangle.
\<close>

lemma intersectRay_stops_at_first_hit:
  assumes "aabb_hit_t ray (world_aabb xfb ob) = Some t"
    and "k < length (world_triangles xf ob)"
    and "triangle_hit ray (world_triangles xf ob ! k) (backfaceCulling (geometry ob)) = Some q"
    and "\<forall>j<k. triangle_hit ray (world_triangles xf ob ! j) (backfaceCulling (geometry ob)) = None"
  shows "returned (intersectRay xf xfb ob ray result s) = Some q
    \<and> triangle_tmp (snd (snd (intersectRay xf xfb ob ray result s))) = world_triangles xf ob ! k"
  using scan_stops [OF assms(2-4)]
  by (simp add: intersectRay_scan assms(1) returned_Some_iff)

lemma intersectRay_first_hit_enclosed:
  assumes "vfin (origin ray)" "vfin (direction ray)" "valid_box (world_aabb xfb ob)"
    and "k < length (world_triangles xf ob)"
    and "box_contains (world_aabb xfb ob) (tri_a (world_triangles xf ob ! k))"
      "box_contains (world_aabb xfb ob) (tri_b (world_triangles xf ob ! k))"
      "box_contains (world_aabb xfb ob) (tri_c (world_triangles xf ob ! k))"
    and "triangle_hit ray (world_triangles xf ob ! k) (backfaceCulling (geometry ob)) = Some q"
    and "\<forall>j<k. triangle_hit ray (world_triangles xf ob ! j) (backfaceCulling (geometry ob)) = None"
  shows "returned (intersectRay xf xfb ob ray result s) = Some q
    \<and> triangle_tmp (snd (snd (intersectRay xf xfb ob ray result s))) = world_triangles xf ob ! k"
proof -
  have "fst (intersectAABB ray (world_aabb xfb ob) (intersectionPointAABB s)) = ResultRef"
    using assms(1-3,5-8) by (rule enclosed_hit_passes_box_test)
  then obtain t where "aabb_hit_t ray (world_aabb xfb ob) = Some t"
    by (auto simp add: intersectAABB_Ref_iff)
  then show ?thesis
    using assms(4,8,9) by (rule intersectRay_stops_at_first_hit)
qed

text \<open>
  Claim C4, amended. When the ray hits the world-space bounding box of the obstacle, and
  the triangle number \<open>k\<close> in buffer order intersects the ray while no earlier one does,
  \<^verbatim>\<open>Obstacle.intersectRay\<close> returns the intersection point of triangle \<open>k\<close>, and triangle
  \<open>k\<close> is the last one written to the working triangle: the scan ends there, whether or
  not a later triangle lies closer to the origin of the ray.
\<close>

theorem intersectRay_first_hit:
  assumes "fst (intersectAABB ray (world_aabb xfb ob) (intersectionPointAABB s)) = ResultRef"
    and "k < length (world_triangles xf ob)"
    and "returned (intersectTriangle ray (world_triangles xf ob ! k)
           (backfaceCulling (geometry ob)) result1 s1) = Some q"
    and "\<forall>j<k. returned (intersectTriangle ray (world_triangles xf ob ! j)
           (backfaceCulling (geometry ob)) result2 s2) = None"
  shows "returned (intersectRay xf xfb ob ray result s) = Some q
    \<and> triangle_tmp (snd (snd (intersectRay xf xfb ob ray result s))) = world_triangles xf ob ! k"
proof -
  obtain t where t: "aabb_hit_t ray (world_aabb xfb ob) = Some t"
    using assms(1) by (auto simp add: intersectAABB_Ref_iff)
  have hit: "triangle_hit ray (world_triangles xf ob ! k) (backfaceCulling (geometry ob)) = Some q"
    using assms(3) by (simp add: intersectTriangle_returned)
  have miss: "\<forall>j<k. triangle_hit ray (world_triangles xf ob ! j) (backfaceCulling (geometry ob)) = None"
    using assms(4) by (simp add: intersectTriangle_returned)
  show ?thesis
    using t assms(2) hit miss by (rule intersectRay_stops_at_first_hit)
qed

text \<open>
  Claim C4 as stated, without the broad phase, fails: the first triangle of this mesh
  intersects the ray, the stored bounding box of the geometry is missed, and
  \<^verbatim>\<open>Obstacle.intersectRay\<close> returns \<^verbatim>\<open>null\<close>.
\<close>

theorem intersectRay_first_hit_counterexample:
  "returned (intersectTriangle tri_ray (world_triangles identity_xf stale_box_obstacle ! 0)
      (backfaceCulling (geometry stale_box_obstacle)) (vec 9 9 9) scratch0)
     = Some (vec 0 (3 / 10) 2)
   \<and> returned (intersectRay identity_xf identity_xfb stale_box_obstacle tri_ray (vec 9 9 9) scratch0)
     = None"
  by code_simp

theorem intersectRay_first_hit_witness:
  "fst (intersectAABB tri_ray (world_aabb identity_xfb two_layer_obstacle)
      (intersectionPointAABB scratch0)) = ResultRef
   \<and> 0 < length (world_triangles identity_xf two_layer_obstacle)
   \<and> returned (intersectTriangle tri_ray (world_triangles identity_xf two_layer_obstacle ! 0)
        (backfaceCulling (geometry two_layer_obstacle)) (vec 9 9 9) scratch0)
       = Some (vec 0 (3 / 10) 2)
   \<and> returned (intersectTriangle tri_ray (world_triangles identity_xf two_layer_obstacle ! 1)
        (backfaceCulling (geometry two_layer_obstacle)) (vec 9 9 9) scratch0)
       = Some (vec 0 (3 / 10) 0)
   \<and> distance (vec 0 (3 / 10) 0) (origin tri_ray) < distance (vec 0 (3 / 10) 2) (origin tri_ray)
   \<and> returned (intersectRay identity_xf identity_xfb two_layer_obstacle tri_ray (vec 9 9 9) scratch0)
       = Some (vec 0 (3 / 10) 2)
   \<and> triangle_tmp (snd (snd (intersectRay identity_xf identity_xfb two_layer_obstacle tri_ray
        (vec 9 9 9) scratch0))) = world_triangles identity_xf two_layer_obstacle ! 0"
proof -
  have h1: "fst (intersectAABB tri_ray (world_aabb identity_xfb two_layer_obstacle)
      (intersectionPointAABB scratch0)) = ResultRef"
    by code_simp
  have h2: "0 < length (world_triangles identity_xf two_layer_obstacle)"
    by code_simp
  have h3: "returned (intersectTriangle tri_ray (world_triangles identity_xf two_layer_obstacle ! 0)
        (backfaceCulling (geometry two_layer_obstacle)) (vec 9 9 9) scratch0)
       = Some (vec 0 (3 / 10) 2)"
    by code_simp
  have h4: "\<forall>j<0. returned (intersectTriangle tri_ray
        (world_triangles identity_xf two_layer_obstacle ! j)
        (backfaceCulling (geometry two_layer_obstacle)) (vec 9 9 9) scratch0) = None"
    by simp
  have near: "returned (intersectTriangle tri_ray
        (world_triangles identity_xf two_layer_obstacle ! 1)
        (backfaceCulling (geometry two_layer_obstacle)) (vec 9 9 9) scratch0)
       = Some (vec 0 (3 / 10) 0)"
    by code_simp
  have closer: "distance (vec 0 (3 / 10) 0) (origin tri_ray)
      < distance (vec 0 (3 / 10) 2) (origin tri_ray)"
    by (simp add: distance_def vec_def tri_ray_def ray_from_def)
  show ?thesis
    using intersectRay_first_hit [OF h1 h2 h3 h4, where result = "vec 9 9 9"]
      h1 h2 h3 near closer
    by blast
qed

section \<open>The result vector on a null return\<close>

text \<open>
  Claim C10. Whenever \<^verbatim>\<open>Ray.intersectBoundingSphere\<close>, \<^verbatim>\<open>Ray.intersectAABB\<close>,
  \<^verbatim>\<open>Ray.intersectTriangle\<close> or \<^verbatim>\<open>Obstacle.intersectRay\<close> returns \<^verbatim>\<open>null\<close>, the contents of
  the caller's vector \<open>result\<close> are what they were before the call.
\<close>

theorem null_leaves_result:
  "(fst (intersectBoundingSphere r S result s) = Null \<longrightarrow>
      fst (snd (intersectBoundingSphere r S result s)) = result)
   \<and> (fst (intersectAABB r box result) = Null \<longrightarrow> snd (intersectAABB r box result) = result)
   \<and> (fst (intersectTriangle r T cull result s) = Null \<longrightarrow>
      fst (snd (intersectTriangle r T cull result s)) = result)
   \<and> (fst (intersectRay xf xfb ob r result s) = Null \<longrightarrow>
      fst (snd (intersectRay xf xfb ob r result s)) = result)"
proof -
  have "fst (snd (intersectRay xf xfb ob r result s)) = result"
    if "fst (intersectRay xf xfb ob r result s) = Null"
    using that
    by (cases "aabb_hit_t r (world_aabb xfb ob)") (simp_all add: intersectRay_scan scan_frame)
  then show ?thesis
    using intersectBoundingSphere_frame intersectAABB_frame intersectTriangle_frame
    by blast
qed

theorem null_leaves_result_witness:
  "fst (intersectBoundingSphere (ray_from (vec 0 5 (- 5)) (vec 0 0 1)) unit_sphere (vec 9 9 9)
      scratch0) = Null
   \<and> fst (snd (intersectBoundingSphere (ray_from (vec 0 5 (- 5)) (vec 0 0 1)) unit_sphere
        (vec 9 9 9) scratch0)) = vec 9 9 9
   \<and> fst (intersectAABB (ray_from (vec 0 5 (- 5)) (vec 0 0 1)) unit_box (vec 9 9 9)) = Null
   \<and> snd (intersectAABB (ray_from (vec 0 5 (- 5)) (vec 0 0 1)) unit_box (vec 9 9 9)) = vec 9 9 9
   \<and> fst (intersectTriangle tri_ray spec_triangle True (vec 9 9 9) scratch0) = Null
   \<and> fst (snd (intersectTriangle tri_ray spec_triangle True (vec 9 9 9) scratch0)) = vec 9 9 9
   \<and> fst (intersectRay identity_xf identity_xfb two_layer_obstacle
        (ray_from (vec 0 (3 / 10) (- 5)) (vec 0 0 (- 1))) (vec 9 9 9) scratch0) = Null
   \<and> fst (snd (intersectRay identity_xf identity_xfb two_layer_obstacle
        (ray_from (vec 0 (3 / 10) (- 5)) (vec 0 0 (- 1))) (vec 9 9 9) scratch0)) = vec 9 9 9"
proof -
  have h1: "fst (intersectBoundingSphere (ray_from (vec 0 5 (- 5)) (vec 0 0 1)) unit_sphere
      (vec 9 9 9) scratch0) = Null"
    by (simp add: intersectBoundingSphere_def Let_def sphere_eval)
  have h2: "fst (intersectAABB (ray_from (vec 0 5 (- 5)) (vec 0 0 1)) unit_box (vec 9 9 9)) = Null"
    by code_simp
  have h3: "fst (intersectTriangle tri_ray spec_triangle True (vec 9 9 9) scratch0) = Null"
    by code_simp
  have h4: "fst (intersectRay identity_xf identity_xfb two_layer_obstacle
        (ray_from (vec 0 (3 / 10) (- 5)) (vec 0 0 (- 1))) (vec 9 9 9) scratch0) = Null"
    by code_simp
  show ?thesis
    using h1 h2 h3 h4
      null_leaves_result [of "ray_from (vec 0 5 (- 5)) (vec 0 0 1)" unit_sphere "vec 9 9 9" scratch0
        unit_box spec_triangle True identity_xf identity_xfb two_layer_obstacle]
      null_leaves_result [of tri_ray unit_sphere "vec 9 9 9" scratch0
        unit_box spec_triangle True identity_xf identity_xfb two_layer_obstacle]
      null_leaves_result [of "ray_from (vec 0 (3 / 10) (- 5)) (vec 0 0 (- 1))" unit_sphere
        "vec 9 9 9" scratch0 unit_box spec_triangle True identity_xf identity_xfb two_layer_obstacle]
    by blast
qed

end
